theory Spec2Isabelle
  imports Complex_Main "HOL-Library.AList"
begin

section \<open>Numbers and persisted tables\<close>

text \<open>
  The extension keeps its counters in JavaScript numbers that only ever hold non-negative
  integers; they are modelled as \<open>nat\<close>. \<open>Math.ceil\<close> is applied to quotients and to
  products with the decimal constants \<open>0.2\<close> and \<open>0.8\<close>; the model takes the ceiling of
  the exact real value. The section on double arithmetic below proves that the ceiling of
  the correctly rounded double result is the same number for every counter below \<open>2^45\<close>.

  A JavaScript object is modelled as an association list in key order (the order of
  \<open>Object.keys\<close>); an object has no duplicate keys, so a well-formed table has
  \<open>distinct (map fst t)\<close>.
\<close>

definition Math_ceil :: "real \<Rightarrow> nat" where
  "Math_ceil x = nat \<lceil>x\<rceil>"

text \<open>\<open>Object.values(models).reduce((a, b) => a + b, 0)\<close>\<close>

definition sum_values :: "(string \<times> nat) list \<Rightarrow> nat" where
  "sum_values models = fold (\<lambda>b a. a + b) (map snd models) 0"

text \<open>
  One entry of the token/query table (keyed by date) or of the project table (keyed by
  branch). The tables are read back from storage as \<open>any\<close> and the source guards every
  field (\<open>x.inputTokens || 0\<close>, \<open>if (!x.queries)\<close>), so each field may be absent.
\<close>

record tq_record =
  inputTokens :: "nat option"
  outputTokens :: "nat option"
  queries :: "(string \<times> nat) list option"

type_synonym DailyStats = "(string \<times> (string \<times> nat) list) list"
type_synonym tq_table = "(string \<times> tq_record) list"

section \<open>One-time seeding of the token/query table\<close>

text \<open>The record built for one date in the seeding loop of \<open>activate\<close>.\<close>

definition seededTQ_entry :: "nat \<Rightarrow> tq_record" where
  "seededTQ_entry dayTotal =
     \<lparr> inputTokens = Some (Math_ceil (real dayTotal * 0.2)),
       outputTokens = Some (Math_ceil (real dayTotal * 0.8)),
       queries = Some [(''Coding'', Math_ceil (real dayTotal / 100))] \<rparr>"

text \<open>
  \<open>if (Object.keys(existingTokenQuery).length === 0 && Object.keys(stats).length > 0)\<close>:
  the table stored afterwards under the token/query key.
\<close>

definition seedTokenQuery :: "DailyStats \<Rightarrow> tq_table \<Rightarrow> tq_table" where
  "seedTokenQuery stats existingTokenQuery =
     (if length existingTokenQuery = 0 \<and> length stats > 0
      then map (\<lambda>(date, models). (date, seededTQ_entry (sum_values models))) stats
      else existingTokenQuery)"

section \<open>Clean-up of the project table\<close>

text \<open>
  \<open>Math.ceil((proj.inputTokens + proj.outputTokens) / 100)\<close>; when a field is absent the
  sum is \<open>NaN\<close>, which is equal to nothing: \<open>None\<close>.
\<close>

definition expectedFromSeed :: "tq_record \<Rightarrow> nat option" where
  "expectedFromSeed proj =
     (case (inputTokens proj, outputTokens proj) of
        (Some i, Some out) \<Rightarrow> Some (Math_ceil (real (i + out) / 100))
      | _ \<Rightarrow> None)"

text \<open>
  The two nested conditions under which the loop deletes \<open>existingProject[key]\<close>.
  \<open>proj.queries['Coding']\<close> is tested for truthiness: the key is present and its count
  is not \<open>0\<close>.
\<close>

definition seeded_project :: "string \<Rightarrow> tq_record \<Rightarrow> bool" where
  "seeded_project key proj =
     (case queries proj of
        None \<Rightarrow> False
      | Some q \<Rightarrow>
          length q = 1 \<and>
          (case map_of q ''Coding'' of
             None \<Rightarrow> False
           | Some c \<Rightarrow> c \<noteq> 0 \<and> (Some c = expectedFromSeed proj \<or> key = ''unknown'')))"

definition cleanup_step :: "string \<Rightarrow> tq_table \<Rightarrow> tq_table" where
  "cleanup_step key existingProject =
     (case map_of existingProject key of
        None \<Rightarrow> existingProject
      | Some proj \<Rightarrow>
          if seeded_project key proj then AList.delete key existingProject
          else existingProject)"

text \<open>
  The loop over \<open>projectKeys\<close>, taken before the loop starts, deleting from the table as it
  goes. The result is the table in memory; it is written back when an entry was deleted,
  and otherwise equals the stored one.
\<close>

definition cleanupProjects :: "tq_table \<Rightarrow> tq_table" where
  "cleanupProjects existingProject =
     (let projectKeys = map fst existingProject in
      if length projectKeys > 0 then fold cleanup_step projectKeys existingProject
      else existingProject)"

section \<open>Migration of the legacy model counts\<close>

text \<open>
  \<open>rawStats\<close> is read as \<open>any\<close>: a value under a date is either a number (the old
  schema) or an object of per-model values. The migration wraps whatever it finds under a
  date, so the value type is closed under nesting.
\<close>

datatype jval = Num nat | Obj "(string \<times> jval) list"

type_synonym raw_stats = "(string \<times> jval) list"

text \<open>
  \<open>dates.length > 0 && typeof rawStats[dates[0]] === 'number'\<close> looks at the first
  entry only; then every entry \<open>d\<close> becomes \<open>{ 'Gemini 1.5 Pro': rawStats[d] }\<close>.
  The result is \<open>stats\<close>; it is also what the store holds afterwards (written back in the
  first branch, untouched in the second).
\<close>

definition migrateLegacy :: "raw_stats \<Rightarrow> raw_stats" where
  "migrateLegacy rawStats =
     (case rawStats of
        [] \<Rightarrow> rawStats
      | (d0, Num n0) # rest \<Rightarrow> map (\<lambda>(d, v). (d, Obj [(''Gemini 1.5 Pro'', v)])) rawStats
      | (d0, Obj m0) # rest \<Rightarrow> rawStats)"

text \<open>
  The tokens held under one date: the number itself in the old schema, the sum of the
  per-model values in the new one.
\<close>

fun tokens_of :: "jval \<Rightarrow> nat" where
  "tokens_of (Num n) = n"
| "tokens_of (Obj models) = sum_list (map (\<lambda>kv. tokens_of (snd kv)) models)"

definition total_tokens :: "raw_stats \<Rightarrow> nat" where
  "total_tokens stats = sum_list (map (\<lambda>kv. tokens_of (snd kv)) stats)"

section \<open>Query classifier\<close>

text \<open>
  A text is a list of code units; the model covers code units below 256. The regular
  expressions of \<open>classifyQuery\<close> all have the shape \<open>\b(k1|k2|...)\b\<close>, where a keyword is
  a sequence of literal characters, \<open>\s*\<close> and \<open>\s+\<close>.
\<close>

definition toLowerCase_char :: "char \<Rightarrow> char" where
  "toLowerCase_char c =
     (let n = (of_char c :: nat) in
      if (65 \<le> n \<and> n \<le> 90) \<or> (192 \<le> n \<and> n \<le> 222 \<and> n \<noteq> 215)
      then char_of (n + 32) else c)"

definition toLowerCase :: "string \<Rightarrow> string" where
  "toLowerCase text = map toLowerCase_char text"

text \<open>\<open>\w\<close> is \<open>[A-Za-z0-9_]\<close>; \<open>\s\<close> below 256 is tab, LF, VT, FF, CR, space and U+00A0.\<close>

definition is_word :: "char \<Rightarrow> bool" where
  "is_word c =
     (let n = (of_char c :: nat) in
      (48 \<le> n \<and> n \<le> 57) \<or> (65 \<le> n \<and> n \<le> 90) \<or> (97 \<le> n \<and> n \<le> 122) \<or> n = 95)"

definition is_space :: "char \<Rightarrow> bool" where
  "is_space c =
     (let n = (of_char c :: nat) in (9 \<le> n \<and> n \<le> 13) \<or> n = 32 \<or> n = 160)"

datatype atom = Ch char | Spaces0 | Spaces1

type_synonym keyword = "atom list"

definition lit :: "string \<Rightarrow> keyword" where
  "lit w = map Ch w"

text \<open>
  All the ways a keyword can match at the start of \<open>s\<close>: each result is the last
  character before the end of the match and the text that remains. \<open>prev\<close> is the
  character before \<open>s\<close>, if any.
\<close>

fun match_keyword :: "keyword \<Rightarrow> char option \<Rightarrow> string \<Rightarrow> (char option \<times> string) list" where
  "match_keyword [] prev s = [(prev, s)]"
| "match_keyword (Ch c # k) prev [] = []"
| "match_keyword (Ch c # k) prev (x # xs) =
     (if x = c then match_keyword k (Some x) xs else [])"
| "match_keyword (Spaces0 # k) prev [] = match_keyword k prev []"
| "match_keyword (Spaces0 # k) prev (x # xs) =
     (if is_space x then match_keyword (Spaces0 # k) (Some x) xs else []) @
     match_keyword k prev (x # xs)"
| "match_keyword (Spaces1 # k) prev [] = []"
| "match_keyword (Spaces1 # k) prev (x # xs) =
     (if is_space x then match_keyword (Spaces0 # k) (Some x) xs else [])"

text \<open>\<open>\b\<close>: exactly one of the two neighbouring positions holds a word character.\<close>

definition word_boundary :: "char option \<Rightarrow> string \<Rightarrow> bool" where
  "word_boundary prev s =
     ((case prev of None \<Rightarrow> False | Some c \<Rightarrow> is_word c) \<noteq>
      (case s of [] \<Rightarrow> False | c # _ \<Rightarrow> is_word c))"

definition match_here :: "keyword list \<Rightarrow> char option \<Rightarrow> string \<Rightarrow> bool" where
  "match_here alts prev s =
     (word_boundary prev s \<and>
      list_ex (\<lambda>k. list_ex (\<lambda>(l, r). word_boundary l r) (match_keyword k prev s)) alts)"

text \<open>\<open>/\b(k1|k2|...)\b/.test(s)\<close>: a match may start at any position.\<close>

fun regex_test :: "keyword list \<Rightarrow> char option \<Rightarrow> string \<Rightarrow> bool" where
  "regex_test alts prev [] = match_here alts prev []"
| "regex_test alts prev (x # xs) =
     (match_here alts prev (x # xs) \<or> regex_test alts (Some x) xs)"

definition debugging_keywords :: "keyword list" where
  "debugging_keywords =
     [lit ''error'', lit ''exception'', lit ''bug'', lit ''fix'', lit ''debug'',
      lit ''traceback'', lit ''stack'' @ [Spaces0] @ lit ''trace'', lit ''undefined'',
      lit ''null'', lit ''crash'', lit ''failed'', lit ''issue'']"

definition search_keywords :: "keyword list" where
  "search_keywords =
     [lit ''search'', lit ''find'', lit ''lookup'', lit ''where'', lit ''grep'',
      lit ''locate'', lit ''query'', lit ''select'' @ [Spaces1] @ lit ''from'']"

definition documentation_keywords :: "keyword list" where
  "documentation_keywords =
     [lit ''docstring'', lit ''jsdoc'', lit ''readme'', lit ''comment'',
      lit ''documentation'', lit ''@param'', lit ''@return'', lit ''@description'',
      lit ''/**'']"

definition planning_keywords :: "keyword list" where
  "planning_keywords =
     [lit ''plan'', lit ''todo'', lit ''design'', lit ''architecture'', lit ''refactor'',
      lit ''restructure'', lit ''migrate'', lit ''roadmap'',
      lit ''implement'' @ [Spaces1] @ lit ''feature'']"

definition coding_keywords :: "keyword list" where
  "coding_keywords =
     [lit ''function'', lit ''class'', lit ''const'', lit ''let'', lit ''var'',
      lit ''import'', lit ''export'', lit ''return'', lit ''if'', lit ''for'',
      lit ''while'', lit ''def '', lit ''async'', lit ''await'', lit ''=>'']"

text \<open>\<open>/[{};()\[\]]/.test(text)\<close>, on the text as it was typed.\<close>

definition has_code_punctuation :: "string \<Rightarrow> bool" where
  "has_code_punctuation text = list_ex (\<lambda>c. c \<in> set ''{};()[]'') text"

definition classifyQuery :: "string \<Rightarrow> string" where
  "classifyQuery text =
     (let lower = toLowerCase text in
      if regex_test debugging_keywords None lower then ''Debugging''
      else if regex_test search_keywords None lower then ''Search''
      else if regex_test documentation_keywords None lower then ''Documentation''
      else if regex_test planning_keywords None lower then ''Planning''
      else if regex_test coding_keywords None lower \<or> has_code_punctuation text
      then ''Coding''
      else ''General Question'')"

section \<open>Branch cache\<close>

text \<open>
  The module-level variables \<open>cachedBranch\<close> and \<open>branchLastChecked\<close>, initially
  \<open>'unknown'\<close> and \<open>0\<close>.
\<close>

record branch_cache =
  cachedBranch :: string
  branchLastChecked :: int

definition initial_cache :: branch_cache where
  "initial_cache = \<lparr> cachedBranch = ''unknown'', branchLastChecked = 0 \<rparr>"

text \<open>
  What one call of \<open>getCurrentBranch\<close> reads from its surroundings:
  \<^item> \<open>gitBranch\<close>: \<open>repo.state?.HEAD?.name\<close> of the Git extension API; \<open>None\<close> when the
    extension, its API or a repository is missing, the name is undefined, or the lookup
    throws;
  \<^item> \<open>now\<close>: \<open>Date.now()\<close>;
  \<^item> \<open>wsFolder\<close>: whether a first workspace folder exists;
  \<^item> \<open>execSync\<close>: the trimmed output of \<open>git rev-parse --abbrev-ref HEAD\<close>; \<open>None\<close> when
    the command throws (no repository, error, timeout).
\<close>

record branch_env =
  gitBranch :: "string option"
  now :: int
  wsFolder :: bool
  execSync :: "string option"

text \<open>The lines the extension writes to the console.\<close>

datatype log_line =
    BranchFromExecSync string
  | ExecSyncGitFailed
  | Tracked string nat nat
  | ProjectTracked string

text \<open>
  Strategy 2 of \<open>getCurrentBranch\<close>, from \<open>const now = Date.now()\<close> on. The result is the
  returned branch, the cache afterwards and the console lines written; a line is written
  exactly when \<open>execSync\<close> was called.
\<close>

definition branch_from_exec :: "branch_env \<Rightarrow> branch_cache \<Rightarrow> string \<times> branch_cache \<times> log_line list" where
  "branch_from_exec env c =
     (if now env - branchLastChecked c < 10000 \<and> cachedBranch c \<noteq> ''unknown''
         \<and> cachedBranch c \<noteq> ''no-git-repo''
      then (cachedBranch c, c, [])
      else
        let (branch, lines) =
              (if wsFolder env then
                 (case execSync env of
                    Some out \<Rightarrow> (out, [BranchFromExecSync out])
                  | None \<Rightarrow> (''no-git-repo'', [ExecSyncGitFailed]))
               else (cachedBranch c, []))
        in (branch, \<lparr> cachedBranch = branch, branchLastChecked = now env \<rparr>, lines))"

text \<open>Strategy 1 first: \<open>if (branchName)\<close> holds for a non-empty name.\<close>

definition getCurrentBranch :: "branch_env \<Rightarrow> branch_cache \<Rightarrow> string \<times> branch_cache \<times> log_line list" where
  "getCurrentBranch env c =
     (case gitBranch env of
        Some branchName \<Rightarrow>
          if branchName \<noteq> [] then (branchName, c\<lparr> cachedBranch := branchName \<rparr>, [])
          else branch_from_exec env c
      | None \<Rightarrow> branch_from_exec env c)"

section \<open>Property lookup and assignment on the tables\<close>

text \<open>The decimal digits of a number, as a template literal and \<open>toISOString\<close> print it.\<close>

fun decimal :: "nat \<Rightarrow> string" where
  "decimal n =
     (if n < 10 then [''0123456789'' ! n]
      else decimal (n div 10) @ [''0123456789'' ! (n mod 10)])"

text \<open>
  The keys of an object are enumerated with the array indices first, in ascending order,
  and then the other keys in the order in which they were created. An array index is
  the canonical decimal string of a number below \<open>2^32 - 1\<close>.
\<close>

definition is_digit :: "char \<Rightarrow> bool" where
  "is_digit c = (let n = (of_char c :: nat) in 48 \<le> n \<and> n \<le> 57)"

definition digits_value :: "string \<Rightarrow> nat" where
  "digits_value key = fold (\<lambda>c n. 10 * n + (of_char c - 48)) key 0"

definition array_index :: "string \<Rightarrow> nat option" where
  "array_index key =
     (let n = digits_value key in
      if key \<noteq> [] \<and> list_all is_digit key \<and> decimal n = key \<and> n < 4294967295
      then Some n else None)"

fun put_index :: "nat \<Rightarrow> string \<times> 'a \<Rightarrow> (string \<times> 'a) list \<Rightarrow> (string \<times> 'a) list" where
  "put_index n e [] = [e]"
| "put_index n e (p # ps) =
     (case array_index (fst p) of
        Some m \<Rightarrow> if m < n then p # put_index n e ps else e # p # ps
      | None \<Rightarrow> e # p # ps)"

text \<open>
  \<open>obj[key] = v\<close> on an object whose own properties are \<open>obj\<close>: an own property keeps its
  place, a new one is created at the place its key has in the enumeration. (The listener
  never assigns under the key \<open>__proto__\<close>, which would call the inherited setter.)
\<close>

definition js_put :: "string \<Rightarrow> 'a \<Rightarrow> (string \<times> 'a) list \<Rightarrow> (string \<times> 'a) list" where
  "js_put key v obj =
     (case map_of obj key of
        Some old \<Rightarrow> AList.update key v obj
      | None \<Rightarrow>
          (case array_index key of
             None \<Rightarrow> obj @ [(key, v)]
           | Some n \<Rightarrow> put_index n (key, v) obj))"

text \<open>
  The tables and their entries are plain objects, so a lookup that finds no own property
  goes on to \<open>Object.prototype\<close>. There it finds the methods every object inherits, the
  accessor \<open>__proto__\<close>, which returns \<open>Object.prototype\<close> itself, and whatever the listener
  has stored on \<open>Object.prototype\<close>: under a branch named \<open>__proto__\<close> its statements assign
  \<open>inputTokens\<close>, \<open>outputTokens\<close> and \<open>queries\<close> there, and under a branch named like an
  inherited method they assign them to that method's function object. These objects are
  no part of the persisted tables; they live as long as the extension host.
  \<^item> \<open>objectPrototype\<close>: the three properties as far as \<open>Object.prototype\<close> has them;
  \<^item> \<open>methodObjects\<close>: the three properties of the inherited methods' function objects,
    by the name of the method.
\<close>

record prototypes =
  objectPrototype :: tq_record
  methodObjects :: tq_table

definition no_properties :: tq_record where
  "no_properties = \<lparr> inputTokens = None, outputTokens = None, queries = None \<rparr>"

definition clean_prototypes :: prototypes where
  "clean_prototypes = \<lparr> objectPrototype = no_properties, methodObjects = [] \<rparr>"

definition inherited_methods :: "string list" where
  "inherited_methods =
     [''constructor'', ''__defineGetter__'', ''__defineSetter__'', ''hasOwnProperty'',
      ''__lookupGetter__'', ''__lookupSetter__'', ''isPrototypeOf'',
      ''propertyIsEnumerable'', ''toString'', ''valueOf'', ''toLocaleString'']"

text \<open>What \<open>table[key]\<close> evaluates to.\<close>

datatype resolved =
    Own tq_record
  | ObjectPrototype
  | Method string
  | Number nat
  | Queries "(string \<times> nat) list"
  | Undefined

definition resolve :: "string \<Rightarrow> tq_table \<Rightarrow> prototypes \<Rightarrow> resolved" where
  "resolve key tbl protos =
     (case map_of tbl key of
        Some r \<Rightarrow> Own r
      | None \<Rightarrow>
          if key = ''__proto__'' then ObjectPrototype
          else if key \<in> set inherited_methods then Method key
          else if key = ''inputTokens'' then
            (case inputTokens (objectPrototype protos) of
               Some n \<Rightarrow> Number n | None \<Rightarrow> Undefined)
          else if key = ''outputTokens'' then
            (case outputTokens (objectPrototype protos) of
               Some n \<Rightarrow> Number n | None \<Rightarrow> Undefined)
          else if key = ''queries'' then
            (case queries (objectPrototype protos) of
               Some q \<Rightarrow> Queries q | None \<Rightarrow> Undefined)
          else Undefined)"

text \<open>
  \<open>x.f || 0\<close> for a numeric property: the own value if \<open>x\<close> has the property, else the
  value on \<open>Object.prototype\<close>, else \<open>0\<close>.
\<close>

definition or_zero :: "nat option \<Rightarrow> nat option \<Rightarrow> nat" where
  "or_zero own inherited =
     (case own of
        Some v \<Rightarrow> v
      | None \<Rightarrow> (case inherited of Some v \<Rightarrow> v | None \<Rightarrow> 0))"

section \<open>The change listener\<close>

text \<open>The three tables in \<open>globalState\<close>, under their storage keys.\<close>

record store =
  daily_usage_stats :: DailyStats
  daily_token_query_stats :: tq_table
  project_usage_stats :: tq_table

record monitor_state =
  globalState :: store
  aiUsageCount :: nat
  aiGeneratedChars :: nat
  branchCache :: branch_cache
  activePanel :: bool
  console :: "log_line list"
  prototypeObjects :: prototypes

text \<open>
  \<open>obj[k] = (obj[k] || 0) + n\<close> on an object of counts. The listener uses it with the model
  name and with the six query types that \<open>classifyQuery\<close> returns; none of them is found
  on \<open>Object.prototype\<close>.
\<close>

definition add_count :: "string \<Rightarrow> nat \<Rightarrow> (string \<times> nat) list \<Rightarrow> (string \<times> nat) list" where
  "add_count k n obj = js_put k ((case map_of obj k of None \<Rightarrow> 0 | Some v \<Rightarrow> v) + n) obj"

definition defaultModel :: string where
  "defaultModel = ''Gemini 1.5 Pro''"

text \<open>
  \<open>new Date().toISOString().split('T')[0]\<close>: the calendar date (years 0 to 9999) as
  \<open>YYYY-MM-DD\<close>. Such a key holds a hyphen, so it is no array index and nothing on
  \<open>Object.prototype\<close> has its name.
\<close>

record calendar_date =
  year :: nat
  month :: nat
  day :: nat

definition pad :: "nat \<Rightarrow> nat \<Rightarrow> string" where
  "pad width n = replicate (width - length (decimal n)) (CHR ''0'') @ decimal n"

definition toISODate :: "calendar_date \<Rightarrow> string" where
  "toISODate d = pad 4 (year d) @ ''-'' @ pad 2 (month d) @ ''-'' @ pad 2 (day d)"

text \<open>Step 1 of the listener: model usage, under the date.\<close>

definition recordUsage :: "calendar_date \<Rightarrow> nat \<Rightarrow> DailyStats \<Rightarrow> DailyStats" where
  "recordUsage today estimatedTokens currentStats =
     (let dateKey = toISODate today;
          models = (case map_of currentStats dateKey of None \<Rightarrow> [] | Some models \<Rightarrow> models)
      in js_put dateKey (add_count defaultModel estimatedTokens models) currentStats)"

text \<open>
  The four statements that steps 2 and 3 run on \<open>table[key]\<close>, here on an object with the
  own properties \<open>target\<close> that inherits from \<open>Object.prototype\<close> (an entry of a table, or the
  function object of an inherited method). An entry without own \<open>queries\<close> shares the
  \<open>queries\<close> object of \<open>Object.prototype\<close>, if there is one, and counts in it. The result is
  the object and \<open>Object.prototype\<close> afterwards.
\<close>

definition track_object :: "nat \<Rightarrow> nat \<Rightarrow> string \<Rightarrow> tq_record \<Rightarrow> tq_record \<Rightarrow> tq_record \<times> tq_record" where
  "track_object estimatedInputTokens estimatedOutputTokens queryType target proto =
     (let inp = or_zero (inputTokens target) (inputTokens proto) + estimatedInputTokens;
          out = or_zero (outputTokens target) (outputTokens proto) + estimatedOutputTokens
      in case queries target of
           Some q \<Rightarrow>
             (\<lparr> inputTokens = Some inp, outputTokens = Some out,
                queries = Some (add_count queryType 1 q) \<rparr>, proto)
         | None \<Rightarrow>
             (case queries proto of
                None \<Rightarrow>
                  (\<lparr> inputTokens = Some inp, outputTokens = Some out,
                     queries = Some (add_count queryType 1 []) \<rparr>, proto)
              | Some shared \<Rightarrow>
                  (\<lparr> inputTokens = Some inp, outputTokens = Some out, queries = None \<rparr>,
                   proto\<lparr> queries := Some (add_count queryType 1 shared) \<rparr>)))"

text \<open>The same statements on \<open>Object.prototype\<close> itself, which inherits from nothing.\<close>

definition track_prototype :: "nat \<Rightarrow> nat \<Rightarrow> string \<Rightarrow> tq_record \<Rightarrow> tq_record" where
  "track_prototype estimatedInputTokens estimatedOutputTokens queryType proto =
     \<lparr> inputTokens = Some (or_zero (inputTokens proto) None + estimatedInputTokens),
       outputTokens = Some (or_zero (outputTokens proto) None + estimatedOutputTokens),
       queries = Some (add_count queryType 1
                  (case queries proto of None \<Rightarrow> [] | Some q \<Rightarrow> q)) \<rparr>"

text \<open>
  The same statements on the \<open>queries\<close> object of \<open>Object.prototype\<close>: the two token counts
  become keys of that object, and its \<open>queries\<close> is, by inheritance, the object itself (its
  own keys are query types and the two token names).
\<close>

definition track_queries :: "nat \<Rightarrow> nat \<Rightarrow> string \<Rightarrow> (string \<times> nat) list \<Rightarrow> tq_record \<Rightarrow> (string \<times> nat) list" where
  "track_queries estimatedInputTokens estimatedOutputTokens queryType shared proto =
     (let q1 = js_put ''inputTokens''
                 (or_zero (map_of shared ''inputTokens'') (inputTokens proto)
                    + estimatedInputTokens) shared;
          q2 = js_put ''outputTokens''
                 (or_zero (map_of q1 ''outputTokens'') (outputTokens proto)
                    + estimatedOutputTokens) q1
      in add_count queryType 1 q2)"

datatype js_error = TypeError

text \<open>
  Steps 2 and 3 of the listener run the same statements on the token/query table under
  the date and on the project table under the branch:
  \<^verbatim>\<open>if (!t[key]) t[key] = { inputTokens: 0, outputTokens: 0, queries: {} };\<close>
  and the four statements above. An object is truthy, so an entry is created only when
  the lookup gives \<open>undefined\<close> or the number \<open>0\<close>. On a number other than \<open>0\<close> the first
  assignment throws (the compiled module is in strict mode). The result is the table and
  the prototype objects afterwards.
\<close>

definition recordTokenQuery ::
    "string \<Rightarrow> nat \<Rightarrow> nat \<Rightarrow> string \<Rightarrow> tq_table \<Rightarrow> prototypes
      \<Rightarrow> js_error + tq_table \<times> prototypes" where
  "recordTokenQuery key estimatedInputTokens estimatedOutputTokens queryType tqStats protos =
     (let proto = objectPrototype protos;
          track = track_object estimatedInputTokens estimatedOutputTokens queryType;
          create = (let (r, proto') =
                          track \<lparr> inputTokens = Some 0, outputTokens = Some 0,
                                  queries = Some [] \<rparr> proto
                    in Inr (js_put key r tqStats, protos\<lparr> objectPrototype := proto' \<rparr>))
      in case resolve key tqStats protos of
           Own entry \<Rightarrow>
             (let (r, proto') = track entry proto
              in Inr (js_put key r tqStats, protos\<lparr> objectPrototype := proto' \<rparr>))
         | Undefined \<Rightarrow> create
         | Number n \<Rightarrow> if n = 0 then create else Inl TypeError
         | ObjectPrototype \<Rightarrow>
             Inr (tqStats,
                  protos\<lparr> objectPrototype :=
                    track_prototype estimatedInputTokens estimatedOutputTokens queryType
                      proto \<rparr>)
         | Method m \<Rightarrow>
             (let (f, proto') =
                    track (case map_of (methodObjects protos) m of
                             None \<Rightarrow> no_properties | Some f \<Rightarrow> f) proto
              in Inr (tqStats,
                      \<lparr> objectPrototype = proto',
                        methodObjects = js_put m f (methodObjects protos) \<rparr>))
         | Queries shared \<Rightarrow>
             Inr (tqStats,
                  protos\<lparr> objectPrototype :=
                    proto\<lparr> queries :=
                      Some (track_queries estimatedInputTokens estimatedOutputTokens
                              queryType shared proto) \<rparr> \<rparr>))"

definition recordProject ::
    "string \<Rightarrow> nat \<Rightarrow> nat \<Rightarrow> string \<Rightarrow> tq_table \<Rightarrow> prototypes
      \<Rightarrow> js_error + tq_table \<times> prototypes" where
  "recordProject branch estimatedInputTokens estimatedOutputTokens queryType projStats protos =
     recordTokenQuery branch estimatedInputTokens estimatedOutputTokens queryType projStats
       protos"

text \<open>
  What one content change reads from its surroundings: the date, and what the one or two
  calls of \<open>getCurrentBranch\<close> see (the second is made for the live update when a dashboard
  panel is open).
\<close>

record change_env =
  today :: calendar_date
  branchEnv :: branch_env
  liveUpdateEnv :: branch_env

text \<open>
  The body of the loop over \<open>event.contentChanges\<close>. The status bar text and the message
  posted to the panel only read the state and are left out. Each table is written back
  to \<open>globalState\<close> as soon as its step is done, so an exception in a later step leaves the
  earlier steps in place; the result is the exception, if one was thrown, and the state.
\<close>

definition on_change ::
    "change_env \<Rightarrow> string \<Rightarrow> monitor_state \<Rightarrow> js_error option \<times> monitor_state" where
  "on_change env text s =
     (if length text > 30 then
        let newChars = length text;
            estimatedOutputTokens = Math_ceil (real newChars / 4);
            estimatedInputTokens = Math_ceil (real estimatedOutputTokens * 0.2);
            estimatedTokens = estimatedInputTokens + estimatedOutputTokens;
            dateKey = toISODate (today env);
            currentStats = recordUsage (today env) estimatedTokens
                             (daily_usage_stats (globalState s));
            queryType = classifyQuery text;
            s1 = s\<lparr> globalState := (globalState s)\<lparr> daily_usage_stats := currentStats \<rparr>,
                    aiUsageCount := aiUsageCount s + 1,
                    aiGeneratedChars := aiGeneratedChars s + newChars \<rparr>
        in case recordTokenQuery dateKey estimatedInputTokens estimatedOutputTokens
                  queryType (daily_token_query_stats (globalState s)) (prototypeObjects s) of
             Inl e \<Rightarrow> (Some e, s1)
           | Inr (tqStats, protos1) \<Rightarrow>
               let (branch, cache1, lines1) =
                     getCurrentBranch (branchEnv env) (branchCache s);
                   s2 = s1\<lparr> globalState :=
                             (globalState s1)\<lparr> daily_token_query_stats := tqStats \<rparr>,
                           prototypeObjects := protos1,
                           branchCache := cache1,
                           console := console s @
                             [Tracked queryType estimatedInputTokens estimatedOutputTokens]
                             @ lines1 \<rparr>
               in case recordProject branch estimatedInputTokens estimatedOutputTokens
                         queryType (project_usage_stats (globalState s)) protos1 of
                    Inl e \<Rightarrow> (Some e, s2)
                  | Inr (projStats, protos2) \<Rightarrow>
                      let (cache2, lines2) =
                            (if activePanel s then
                               (let (b, c, ls) = getCurrentBranch (liveUpdateEnv env) cache1
                                in (c, ls))
                             else (cache1, []))
                      in (None,
                          s2\<lparr> globalState :=
                                (globalState s2)\<lparr> project_usage_stats := projStats \<rparr>,
                              prototypeObjects := protos2,
                              branchCache := cache2,
                              console := console s2 @ [ProjectTracked branch] @ lines2 \<rparr>)
      else (None, s))"

text \<open>
  The listener: every content change of the event in turn; an exception ends the loop.
\<close>

fun onDidChangeTextDocument ::
    "(change_env \<times> string) list \<Rightarrow> monitor_state \<Rightarrow> js_error option \<times> monitor_state" where
  "onDidChangeTextDocument [] s = (None, s)"
| "onDidChangeTextDocument ((env, text) # contentChanges) s =
     (case on_change env text s of
        (Some e, s') \<Rightarrow> (Some e, s')
      | (None, s') \<Rightarrow> onDidChangeTextDocument contentChanges s')"

section \<open>Export and upload to the dashboard\<close>

datatype export_value = Text string | Usage DailyStats | Stats tq_table

text \<open>A record of the dashboard data file: a JSON object, in key order.\<close>

type_synonym user_record = "(string \<times> export_value) list"

text \<open>
  \<open>getExportData\<close>: the stored user id (\<open>'antigravity.userId'\<close> in \<open>globalState\<close>) is
  generated from \<open>Date.now()\<close> when it is absent or empty, and stored. The result is the
  export object and the id stored afterwards.
\<close>

definition getExportData ::
    "store \<Rightarrow> string option \<Rightarrow> string \<Rightarrow> nat \<Rightarrow> user_record \<times> string" where
  "getExportData st storedUserId userEmail dateNow =
     (let uid = (case storedUserId of
                   None \<Rightarrow> ''user_'' @ decimal dateNow
                 | Some u \<Rightarrow> if u = [] then ''user_'' @ decimal dateNow else u)
      in ([(''userId'', Text uid),
           (''email'', Text (if userEmail \<noteq> ''Guest'' then userEmail
                             else ''exported_user@example.com'')),
           (''usage'', Usage (daily_usage_stats st)),
           (''tokenQuery'', Stats (daily_token_query_stats st)),
           (''projects'', Stats (project_usage_stats st))], uid))"

text \<open>\<open>{ ...a, ...b }\<close>: the keys of \<open>a\<close> in order, overwritten by \<open>b\<close>, then the new keys of \<open>b\<close>.\<close>

definition spread :: "user_record \<Rightarrow> user_record \<Rightarrow> user_record" where
  "spread a b = fold (\<lambda>(k, v). AList.update k v) b a"

text \<open>
  \<open>u.userId === currentUserData.userId || u.email === currentUserData.email\<close>. The two
  fields of \<open>currentUserData\<close> are always strings (it comes from \<open>getExportData\<close>), and
  strict equality with a string holds for an equal string only.
\<close>

definition same_user :: "user_record \<Rightarrow> user_record \<Rightarrow> bool" where
  "same_user currentUserData u =
     (map_of u ''userId'' = map_of currentUserData ''userId'' \<or>
      map_of u ''email'' = map_of currentUserData ''email'')"

fun findIndex :: "('a \<Rightarrow> bool) \<Rightarrow> 'a list \<Rightarrow> nat option" where
  "findIndex P [] = None"
| "findIndex P (x # xs) =
     (if P x then Some 0 else (case findIndex P xs of None \<Rightarrow> None | Some i \<Rightarrow> Some (Suc i)))"

definition avatar_for :: "user_record \<Rightarrow> string" where
  "avatar_for currentUserData =
     ''https://api.dicebear.com/7.x/avataaars/svg?seed='' @
       (case map_of currentUserData ''userId'' of Some (Text uid) \<Rightarrow> uid | _ \<Rightarrow> ''undefined'')"

text \<open>The update of \<open>currentData\<close> in the export-and-upload command.\<close>

definition mergeExport :: "user_record list \<Rightarrow> user_record \<Rightarrow> user_record list" where
  "mergeExport currentData currentUserData =
     (case findIndex (same_user currentUserData) currentData of
        Some existingIndex \<Rightarrow>
          currentData[existingIndex := spread (currentData ! existingIndex) currentUserData]
      | None \<Rightarrow>
          currentData @ [spread currentUserData [(''avatarUrl'', Text (avatar_for currentUserData))]])"

section \<open>Double arithmetic\<close>

text \<open>
  A JavaScript number is an IEEE 754 double. \<open>double x\<close>: the non-negative real \<open>x\<close> is a
  double, that is a significand below \<open>2^53\<close> times a power of two (the exponent range,
  which the counters stay far away from, is left aside). \<open>nearest x y\<close>: \<open>y\<close> is a double
  nearest to \<open>x\<close>, which is what a multiplication or division whose exact result is \<open>x\<close>
  returns. \<open>double_0_2\<close> and \<open>double_0_8\<close> are the doubles that the literals \<open>0.2\<close> and
  \<open>0.8\<close> denote.
\<close>

definition double :: "real \<Rightarrow> bool" where
  "double x = (\<exists>m a b :: nat. m < 2 ^ 53 \<and> x = real m * 2 ^ a / 2 ^ b)"

definition nearest :: "real \<Rightarrow> real \<Rightarrow> bool" where
  "nearest x y = (double y \<and> (\<forall>z. double z \<longrightarrow> \<bar>x - y\<bar> \<le> \<bar>x - z\<bar>))"

definition double_0_2 :: real where
  "double_0_2 = 3602879701896397 / 2 ^ 54"

definition double_0_8 :: real where
  "double_0_8 = 3602879701896397 / 2 ^ 52"

section \<open>Reading the counters\<close>

text \<open>
  The counters of an entry as the listener reads them: a table without the entry counts
  as 0, and an entry without the property has the value on \<open>Object.prototype\<close>, if any,
  and else 0.
\<close>

definition input_of :: "tq_record \<Rightarrow> tq_table \<Rightarrow> string \<Rightarrow> nat" where
  "input_of proto tbl key =
     (case map_of tbl key of
        None \<Rightarrow> 0
      | Some r \<Rightarrow> or_zero (inputTokens r) (inputTokens proto))"

definition output_of :: "tq_record \<Rightarrow> tq_table \<Rightarrow> string \<Rightarrow> nat" where
  "output_of proto tbl key =
     (case map_of tbl key of
        None \<Rightarrow> 0
      | Some r \<Rightarrow> or_zero (outputTokens r) (outputTokens proto))"

definition model_tokens :: "DailyStats \<Rightarrow> string \<Rightarrow> string \<Rightarrow> nat" where
  "model_tokens stats date model =
     (case map_of stats date of
        None \<Rightarrow> 0
      | Some models \<Rightarrow> (case map_of models model of None \<Rightarrow> 0 | Some v \<Rightarrow> v))"

text \<open>The names that a lookup in a table can find on \<open>Object.prototype\<close>.\<close>

definition prototype_names :: "string list" where
  "prototype_names =
     ''__proto__'' # inherited_methods @ [''inputTokens'', ''outputTokens'', ''queries'']"

section \<open>Arithmetic of the estimates\<close>

lemma Math_ceil_div:
  assumes b: "0 < b"
  shows "Math_ceil (real a / real b) = (a + b - 1) div b"
proof -
  define m where "m = (a + b - 1) div b"
  have le: "m * b \<le> a + b - 1"
    unfolding m_def by simp
  have lt: "a + b - 1 < m * b + b"
    unfolding m_def using b dividend_less_times_div [of b "a + b - 1"] by (simp add: ac_simps)
  from lt b have up: "a \<le> m * b" by linarith
  from le b have low: "m * b < a + b" by linarith
  have "real a \<le> real (m * b)" using up by (rule iffD2 [OF of_nat_le_iff])
  then have x_le: "real a / real b \<le> real m"
    using b by (simp add: divide_le_eq)
  have "real (m * b) < real (a + b)" using low by (rule iffD2 [OF of_nat_less_iff])
  then have x_gt: "real m - 1 < real a / real b"
    using b by (simp add: less_divide_eq algebra_simps)
  have "\<lceil>real a / real b\<rceil> = int m"
    using x_gt x_le by (intro ceiling_unique) simp_all
  then show ?thesis by (simp add: Math_ceil_def m_def)
qed

lemma Math_ceil_02: "Math_ceil (real n * 0.2) = (n + 4) div 5"
  using Math_ceil_div [of 5 n] by simp

lemma Math_ceil_08: "Math_ceil (real n * 0.8) = (4 * n + 4) div 5"
  using Math_ceil_div [of 5 "4 * n"] by (simp add: ac_simps)

lemma Math_ceil_100: "Math_ceil (real n / 100) = (n + 99) div 100"
  using Math_ceil_div [of 100 n] by simp

lemma Math_ceil_4: "Math_ceil (real n / 4) = (n + 3) div 4"
  using Math_ceil_div [of 4 n] by simp

lemma div5_split: "(5 * q + r) div 5 = q + r div 5" for q r :: nat
  by simp

lemma seed_sum:
  fixes n :: nat
  shows "(n + 4) div 5 + (4 * n + 4) div 5 = (if n mod 5 = 0 then n else n + 1)"
proof -
  define q r where "q = n div 5" and "r = n mod 5"
  have n: "n = 5 * q + r" and r: "r < 5" by (simp_all add: q_def r_def)
  have a: "(n + 4) div 5 = q + (r + 4) div 5"
    unfolding n using div5_split [of q "r + 4"] by (simp add: ac_simps)
  have b: "(4 * n + 4) div 5 = 4 * q + (4 * r + 4) div 5"
    unfolding n using div5_split [of "4 * q" "4 * r + 4"] by (simp add: ac_simps)
  from r consider "r = 0" | "r = 1" | "r = 2" | "r = 3" | "r = 4" by linarith
  then have c: "(r + 4) div 5 + (4 * r + 4) div 5 = (if r = 0 then r else r + 1)"
    by cases simp_all
  have nm: "n mod 5 = r" by (simp add: r_def)
  have "(n + 4) div 5 + (4 * n + 4) div 5 = 5 * q + ((r + 4) div 5 + (4 * r + 4) div 5)"
    using a b by simp
  also have "\<dots> = 5 * q + (if r = 0 then r else r + 1)"
    using c by simp
  also have "\<dots> = (if n mod 5 = 0 then n else n + 1)"
    unfolding nm using n by simp
  finally show ?thesis .
qed

lemma seed_cnt:
  fixes n :: nat
  shows "((n + 4) div 5 + (4 * n + 4) div 5 + 99) div 100 = (n + 99) div 100"
proof (cases "n mod 5 = 0")
  case True
  then show ?thesis by (simp add: seed_sum)
next
  case False
  define a b where "a = n div 100" and "b = n mod 100"
  have n: "n = 100 * a + b" and b: "b < 100" by (simp_all add: a_def b_def)
  have "b \<noteq> 0"
  proof
    assume "b = 0"
    then have "n = 5 * (20 * a)" using n by simp
    then have "n mod 5 = 0" by simp
    with False show False ..
  qed
  with b have b1: "(b + 100) div 100 = 1" and b2: "(b + 99) div 100 = 1" by simp_all
  have "(n + 100) div 100 = a + (b + 100) div 100"
    unfolding n by simp
  moreover have "(n + 99) div 100 = a + (b + 99) div 100"
    unfolding n by simp
  ultimately have "(n + 1 + 99) div 100 = (n + 99) div 100"
    using b1 b2 by simp
  with False show ?thesis by (simp add: seed_sum)
qed

section \<open>The estimates in double arithmetic\<close>

lemma double_frac: "m < 2 ^ 53 \<Longrightarrow> double (real m / 2 ^ b)"
  unfolding double_def by (intro exI [of _ m] exI [of _ 0] exI [of _ b]) simp

lemma double_nat: "m < 2 ^ 53 \<Longrightarrow> double (real m)"
  using double_frac [of m 0] by simp

lemma nearest_close: "nearest x y \<Longrightarrow> double z \<Longrightarrow> \<bar>x - y\<bar> \<le> \<bar>x - z\<bar>"
  by (simp add: nearest_def)

lemma nearest_exact: "double x \<Longrightarrow> nearest x y \<Longrightarrow> y = x"
  using nearest_close [of x y x] by simp

lemma grid128:
  assumes "0 \<le> x" and "x < 2 ^ 45"
  shows "\<exists>z. double z \<and> \<bar>x - z\<bar> < 1 / 128"
proof -
  define m where "m = nat \<lfloor>128 * x\<rfloor>"
  have nonneg: "0 \<le> \<lfloor>128 * x\<rfloor>" using assms(1) by simp
  then have rm: "real m = of_int \<lfloor>128 * x\<rfloor>" by (simp add: m_def)
  have le: "real m \<le> 128 * x" unfolding rm by (rule of_int_floor_le)
  have gt: "128 * x < real m + 1" unfolding rm by linarith
  have "real m < 128 * 2 ^ 45" using le assms(2) by linarith
  also have "\<dots> = real (2 ^ 52)" by simp
  finally have "m < 2 ^ 52" by (simp only: of_nat_less_iff)
  then have "m < 2 ^ 53" by simp
  then have "double (real m / 2 ^ 7)" by (rule double_frac)
  moreover have "\<bar>x - real m / 2 ^ 7\<bar> < 1 / 128" using le gt by simp
  ultimately show ?thesis by blast
qed

lemma ceil_inside:
  assumes lo: "real J + 1 / 128 \<le> x" and hi: "x \<le> real J + 1 - 1 / 128"
    and small: "x < 2 ^ 45" and near: "nearest x y"
  shows "\<lceil>y\<rceil> = int J + 1"
proof -
  from lo have "0 \<le> x" by (smt (verit) of_nat_0_le_iff divide_nonneg_nonneg)
  from grid128 [OF this small] obtain z where z: "double z" "\<bar>x - z\<bar> < 1 / 128" by blast
  from nearest_close [OF near z(1)] z(2) have "\<bar>x - y\<bar> < 1 / 128" by linarith
  with lo hi have "real J < y" and "y < real J + 1" by linarith+
  then show ?thesis by (intro ceiling_unique) simp_all
qed

lemma no_double_just_above:
  assumes d: "double y" and above: "real k < y" and close: "y \<le> real k + real k / 2 ^ 53"
    and k: "k < 2 ^ 53"
  shows False
proof -
  from d obtain m a b :: nat where m: "m < 2 ^ 53" and y: "y = real m * 2 ^ a / 2 ^ b"
    unfolding double_def by blast
  have kr: "real k < 2 ^ 53" using k by (metis of_nat_less_iff of_nat_numeral of_nat_power)
  then have gap: "real k / 2 ^ 53 < 1" by simp
  show False
  proof (cases "b \<le> a")
    case True
    then obtain d where a: "a = b + d" by (auto simp: le_iff_add)
    have yd: "y = real (m * 2 ^ d)"
      unfolding y a by (simp add: power_add)
    with above have "real k < real (m * 2 ^ d)" by simp
    then have "k < m * 2 ^ d" by (simp only: of_nat_less_iff)
    then have "k + 1 \<le> m * 2 ^ d" by simp
    then have "real (k + 1) \<le> real (m * 2 ^ d)" by (simp only: of_nat_le_iff)
    then have "real k + 1 \<le> y" unfolding yd by simp
    with close gap show False by linarith
  next
    case False
    then have "a \<le> b" by simp
    then obtain c where b: "b = a + c" by (auto simp: le_iff_add)
    have y': "y = real m / 2 ^ c"
      unfolding y b by (simp add: power_add)
    have pos: "(0::real) < 2 ^ c" by simp
    from above have "real k * 2 ^ c < real m"
      unfolding y' using pos by (simp add: pos_less_divide_eq)
    then have "real (k * 2 ^ c) < real m" by simp
    then have "k * 2 ^ c < m" by (simp only: of_nat_less_iff)
    then have "k * 2 ^ c + 1 \<le> m" by simp
    then have "real (k * 2 ^ c + 1) \<le> real m" by (simp only: of_nat_le_iff)
    then have "real k * 2 ^ c + 1 \<le> real m" by simp
    then have "(real k * 2 ^ c + 1) / 2 ^ c \<le> real m / 2 ^ c"
      using pos by (intro divide_right_mono) simp_all
    then have "real k + 1 / 2 ^ c \<le> y"
      unfolding y' by (simp add: add_divide_distrib)
    with close have "1 / 2 ^ c \<le> real k / 2 ^ 53" by linarith
    then have "1 / 2 ^ c * (2 ^ c * 2 ^ 53) \<le> real k / 2 ^ 53 * (2 ^ c * 2 ^ 53)"
      by (intro mult_right_mono) simp_all
    then have "(2::real) ^ 53 \<le> real k * 2 ^ c"
      by simp
    with \<open>real k * 2 ^ c < real m\<close> have "2 ^ 53 < real m" by linarith
    with m show False by (metis of_nat_less_iff of_nat_numeral of_nat_power less_asym)
  qed
qed

text \<open>The exact product of \<open>N\<close> with the double \<open>0.2\<close> is \<open>N / 5 * (1 + 2^-54)\<close>.\<close>

lemma ceil_fifth:
  assumes N: "N < 2 ^ 47" and near: "nearest (real N * (2 ^ 54 + 1) / (5 * 2 ^ 54)) y"
  shows "\<lceil>y\<rceil> = int ((N + 4) div 5)"
proof -
  define x :: real where "x = real N * (2 ^ 54 + 1) / (5 * 2 ^ 54)"
  define J r where "J = N div 5" and "r = N mod 5"
  have Nd: "N = 5 * J + r" and r: "r < 5" by (simp_all add: J_def r_def)
  have NR: "real N < 2 ^ 47" using N by (metis of_nat_less_iff of_nat_numeral of_nat_power)
  have x_eq: "x = real N / 5 + real N / (5 * 2 ^ 54)"
    unfolding x_def by (simp add: field_simps)
  have extra: "real N / (5 * 2 ^ 54) < 1 / 640"
    using NR by (simp add: field_simps)
  have extra0: "0 \<le> real N / (5 * 2 ^ 54)" by simp
  show ?thesis
  proof (cases "r = 0")
    case True
    then have N5: "N = 5 * J" using Nd by simp
    have xJ: "x = real J + real J / 2 ^ 54"
      unfolding x_eq N5 by simp
    have Jlt: "J < 2 ^ 53" using N N5 by simp
    have "\<bar>x - y\<bar> \<le> \<bar>x - real J\<bar>"
      using near double_nat [OF Jlt] unfolding x_def [symmetric] by (rule nearest_close)
    then have "\<bar>x - y\<bar> \<le> real J / 2 ^ 54" unfolding xJ by simp
    then have lo: "real J \<le> y" and hi: "y \<le> real J + real J / 2 ^ 53"
      unfolding xJ by (simp_all add: abs_le_iff field_simps)
    have dy: "double y" using near by (simp add: nearest_def)
    have "\<not> real J < y" using no_double_just_above [OF dy _ hi Jlt] by blast
    with lo have "y = real J" by simp
    then have "\<lceil>y\<rceil> = int J" by simp
    also have "\<dots> = int ((N + 4) div 5)" unfolding N5 by simp
    finally show ?thesis .
  next
    case False
    with r have r1: "1 \<le> r" and r4: "r \<le> 4" by simp_all
    have "real N / 5 = real J + real r / 5" unfolding Nd by simp
    moreover have "1 \<le> real r" "real r \<le> 4" using r1 r4 by simp_all
    ultimately have lo: "real J + 1 / 128 \<le> x" and hi: "x \<le> real J + 1 - 1 / 128"
      unfolding x_eq using extra extra0 by linarith+
    have "x < 2 ^ 45" unfolding x_eq using NR extra by (simp add: field_simps) 
    from ceil_inside [OF lo hi this] near have "\<lceil>y\<rceil> = int J + 1"
      unfolding x_def by simp
    also have "\<dots> = int ((N + 4) div 5)"
    proof -
      have "(N + 4) div 5 = J + (r + 4) div 5" unfolding Nd by simp
      also have "(r + 4) div 5 = 1" using r1 r4 by simp
      finally show ?thesis by simp
    qed
    finally show ?thesis .
  qed
qed

lemma ceil_hundredth:
  assumes n: "n < 2 ^ 45" and near: "nearest (real n / 100) y"
  shows "\<lceil>y\<rceil> = int ((n + 99) div 100)"
proof -
  define J r where "J = n div 100" and "r = n mod 100"
  have nd: "n = 100 * J + r" and r: "r < 100" by (simp_all add: J_def r_def)
  have nR: "real n < 2 ^ 45" using n by (metis of_nat_less_iff of_nat_numeral of_nat_power)
  have x_eq: "real n / 100 = real J + real r / 100" unfolding nd by simp
  show ?thesis
  proof (cases "r = 0")
    case True
    then have x: "real n / 100 = real J" using x_eq by simp
    have "J < 2 ^ 53" using n nd by simp
    then have "double (real n / 100)" unfolding x by (rule double_nat)
    from nearest_exact [OF this near] have "y = real J" using x by simp
    then have "\<lceil>y\<rceil> = int J" by simp
    also have "\<dots> = int ((n + 99) div 100)" using True nd by simp
    finally show ?thesis .
  next
    case False
    with r have r1: "1 \<le> real r" and r99: "real r \<le> 99" by simp_all
    have lo: "real J + 1 / 128 \<le> real n / 100" and hi: "real n / 100 \<le> real J + 1 - 1 / 128"
      unfolding x_eq using r1 r99 by simp_all
    have "real n / 100 < 2 ^ 45" using nR by simp
    from ceil_inside [OF lo hi this near] have "\<lceil>y\<rceil> = int J + 1" .
    also have "\<dots> = int ((n + 99) div 100)"
    proof -
      have "(n + 99) div 100 = J + (r + 99) div 100" unfolding nd by simp
      also have "(r + 99) div 100 = 1" using False r by simp
      finally show ?thesis by simp
    qed
    finally show ?thesis .
  qed
qed

lemma ceil_quarter:
  assumes n: "n < 2 ^ 53" and near: "nearest (real n / 4) y"
  shows "y = real n / 4"
proof -
  have "double (real n / 2 ^ 2)" using n by (rule double_frac)
  then have "double (real n / 4)" by simp
  from nearest_exact [OF this near] show ?thesis .
qed

lemma five_gap: "2 \<le> \<bar>36028797018963968 - 5 * M\<bar>" for M :: int
  by presburger

lemma double_scaled:
  assumes "double z"
  shows "(\<exists>M::nat. z * 2 ^ s = real M) \<or> z < 2 ^ 53 / 2 ^ (s + 1)"
proof -
  from assms obtain m a b :: nat where m: "m < 2 ^ 53" and z: "z = real m * 2 ^ a / 2 ^ b"
    unfolding double_def by blast
  have mR: "real m < 2 ^ 53" using m by (metis of_nat_less_iff of_nat_numeral of_nat_power)
  show ?thesis
  proof (cases "b \<le> a + s")
    case True
    then obtain d where d: "a + s = b + d" by (auto simp: le_iff_add)
    have "z * 2 ^ s = real m * 2 ^ (a + s) / 2 ^ b"
      unfolding z by (simp add: power_add)
    also have "\<dots> = real (m * 2 ^ d)"
      unfolding d by (simp add: power_add)
    finally show ?thesis by blast
  next
    case False
    then have "a + (s + 1) \<le> b" by simp
    then obtain c where b: "b = a + (s + 1) + c" by (auto simp: le_iff_add)
    have "z = real m / (2 ^ (s + 1) * 2 ^ c)"
      unfolding z b by (simp add: power_add)
    also have "\<dots> \<le> real m / (2 ^ (s + 1) * 1)"
      by (intro divide_left_mono mult_left_mono) simp_all
    also have "\<dots> = real m / 2 ^ (s + 1)" by simp
    also have "\<dots> < 2 ^ 53 / 2 ^ (s + 1)"
      by (rule divide_strict_right_mono [OF mR]) simp
    finally show ?thesis by blast
  qed
qed

lemma nearest_0_2: "nearest 0.2 double_0_2"
  unfolding nearest_def
proof (intro conjI allI impI)
  show "double double_0_2"
    unfolding double_0_2_def using double_frac [of 3602879701896397 54] by simp
next
  fix z assume dz: "double z"
  have err: "\<bar>0.2 - double_0_2\<bar> = 2 / (5 * 2 ^ 55)"
    by (simp add: double_0_2_def)
  from double_scaled [OF dz, of 55] show "\<bar>0.2 - double_0_2\<bar> \<le> \<bar>0.2 - z\<bar>"
  proof
    assume "\<exists>M::nat. z * 2 ^ 55 = real M"
    then obtain M :: nat where M: "z * 2 ^ 55 = real M" by blast
    have "2 \<le> \<bar>36028797018963968 - 5 * int M\<bar>" by (rule five_gap)
    then have "2 \<le> \<bar>real_of_int (36028797018963968 - 5 * int M)\<bar>"
      by linarith
    then have "2 \<le> \<bar>2 ^ 55 - 5 * real M\<bar>" by simp
    then have "2 \<le> \<bar>2 ^ 55 - 5 * (z * 2 ^ 55)\<bar>"
      unfolding M .
    then have "2 / (5 * 2 ^ 55) \<le> \<bar>0.2 - z\<bar>"
      by (simp add: abs_if split: if_splits)
    then show ?thesis unfolding err .
  next
    assume "z < 2 ^ 53 / 2 ^ (55 + 1)"
    then have "z < 1 / 8" by simp
    then have "2 / (5 * 2 ^ 55) \<le> \<bar>0.2 - z\<bar>" by simp
    then show ?thesis unfolding err .
  qed
qed

lemma nearest_0_8: "nearest 0.8 double_0_8"
  unfolding nearest_def
proof (intro conjI allI impI)
  show "double double_0_8"
    unfolding double_0_8_def using double_frac [of 3602879701896397 52] by simp
next
  fix z assume dz: "double z"
  have err: "\<bar>0.8 - double_0_8\<bar> = 2 / (5 * 2 ^ 53)"
    by (simp add: double_0_8_def)
  from double_scaled [OF dz, of 53] show "\<bar>0.8 - double_0_8\<bar> \<le> \<bar>0.8 - z\<bar>"
  proof
    assume "\<exists>M::nat. z * 2 ^ 53 = real M"
    then obtain M :: nat where M: "z * 2 ^ 53 = real M" by blast
    have "2 \<le> \<bar>36028797018963968 - 5 * int M\<bar>" by (rule five_gap)
    then have "2 \<le> \<bar>real_of_int (36028797018963968 - 5 * int M)\<bar>"
      by linarith
    then have "2 \<le> \<bar>2 ^ 55 - 5 * real M\<bar>" by simp
    then have "2 \<le> \<bar>2 ^ 55 - 5 * (z * 2 ^ 53)\<bar>"
      unfolding M .
    then have "2 / (5 * 2 ^ 53) \<le> \<bar>0.8 - z\<bar>"
      by (simp add: abs_if split: if_splits)
    then show ?thesis unfolding err .
  next
    assume "z < 2 ^ 53 / 2 ^ (53 + 1)"
    then have "z < 1 / 2" by simp
    then have "2 / (5 * 2 ^ 53) \<le> \<bar>0.8 - z\<bar>" by simp
    then show ?thesis unfolding err .
  qed
qed

lemma times_0_2: "real n * double_0_2 = real n * (2 ^ 54 + 1) / (5 * 2 ^ 54)"
  by (simp add: double_0_2_def)

lemma times_0_8: "real n * double_0_8 = real (4 * n) * (2 ^ 54 + 1) / (5 * 2 ^ 54)"
  by (simp add: double_0_8_def)

lemma Math_ceil_times_0_2:
  assumes "n < 2 ^ 45" and "nearest (real n * double_0_2) y"
  shows "nat \<lceil>y\<rceil> = Math_ceil (real n * 0.2)"
proof -
  from assms(1) have "n < 2 ^ 47" by simp
  from ceil_fifth [OF this] assms(2) have "\<lceil>y\<rceil> = int ((n + 4) div 5)"
    unfolding times_0_2 .
  then show ?thesis unfolding Math_ceil_02 by simp
qed

lemma Math_ceil_times_0_8:
  assumes "n < 2 ^ 45" and "nearest (real n * double_0_8) y"
  shows "nat \<lceil>y\<rceil> = Math_ceil (real n * 0.8)"
proof -
  from assms(1) have "4 * n < 2 ^ 47" by simp
  from ceil_fifth [OF this] assms(2) have "\<lceil>y\<rceil> = int ((4 * n + 4) div 5)"
    unfolding times_0_8 .
  then show ?thesis unfolding Math_ceil_08 by simp
qed

lemma Math_ceil_over_100:
  assumes "n < 2 ^ 45" and "nearest (real n / 100) y"
  shows "nat \<lceil>y\<rceil> = Math_ceil (real n / 100)"
  using ceil_hundredth [OF assms] unfolding Math_ceil_100 by simp

lemma Math_ceil_over_4:
  assumes "n < 2 ^ 53" and "nearest (real n / 4) y"
  shows "nat \<lceil>y\<rceil> = Math_ceil (real n / 4)"
proof -
  have "y = real n / 4" using assms by (rule ceil_quarter)
  then show ?thesis unfolding Math_ceil_def by (simp only:)
qed

text \<open>
  The estimates of the change listener and the record of the seeding loop, computed in
  doubles, are the ones of the model.
\<close>

lemma estimates_in_doubles:
  assumes "newChars < 2 ^ 45"
    and "nearest (real newChars / 4) q"
    and "nearest (real (nat \<lceil>q\<rceil>) * double_0_2) p"
  shows "nat \<lceil>q\<rceil> = Math_ceil (real newChars / 4) \<and>
         nat \<lceil>p\<rceil> = Math_ceil (real (Math_ceil (real newChars / 4)) * 0.2)"
proof -
  from assms(1) have "newChars < 2 ^ 53" by simp
  from Math_ceil_over_4 [OF this assms(2)]
  have q: "nat \<lceil>q\<rceil> = Math_ceil (real newChars / 4)" .
  have "Math_ceil (real newChars / 4) \<le> newChars"
    unfolding Math_ceil_4 by simp
  with assms(1) have "Math_ceil (real newChars / 4) < 2 ^ 45" by simp
  from Math_ceil_times_0_2 [OF this] assms(3) q show ?thesis by simp
qed

lemma seeded_entry_in_doubles:
  assumes "dayTotal < 2 ^ 45"
    and "nearest (real dayTotal * double_0_2) a"
    and "nearest (real dayTotal * double_0_8) b"
    and "nearest (real dayTotal / 100) c"
  shows "\<lparr>inputTokens = Some (nat \<lceil>a\<rceil>), outputTokens = Some (nat \<lceil>b\<rceil>),
          queries = Some [(''Coding'', nat \<lceil>c\<rceil>)]\<rparr> = seededTQ_entry dayTotal"
  using Math_ceil_times_0_2 [OF assms(1,2)] Math_ceil_times_0_8 [OF assms(1,3)]
    Math_ceil_over_100 [OF assms(1,4)]
  by (simp add: seededTQ_entry_def)

section \<open>The clean-up loop as a filter\<close>

lemma delete_absent: "k \<notin> fst ` set al \<Longrightarrow> AList.delete k al = al"
  by simp

lemma map_of_absent: "k \<notin> fst ` set al \<Longrightarrow> map_of al k = None"
  by (simp add: map_of_eq_None_iff)

lemma cleanup_fold:
  "distinct (map fst (xs @ ys)) \<Longrightarrow>
   fold cleanup_step (map fst ys) (xs @ ys) =
     xs @ filter (\<lambda>e. \<not> seeded_project (fst e) (snd e)) ys"
proof (induction ys arbitrary: xs)
  case Nil
  then show ?case by simp
next
  case (Cons e ys)
  obtain k p where e: "e = (k, p)" by (cases e)
  from Cons.prems have kx: "k \<notin> fst ` set xs" and ky: "k \<notin> fst ` set ys"
    and dx: "distinct (map fst (xs @ ys))"
    by (auto simp: e)
  have look: "map_of (xs @ (k, p) # ys) k = Some p"
    using map_of_absent [OF kx] by (simp add: map_add_def)
  show ?case
  proof (cases "seeded_project k p")
    case True
    have "AList.delete k (xs @ (k, p) # ys) = xs @ ys"
      using delete_absent [OF kx] delete_absent [OF ky] by (simp add: AList.delete_eq)
    then have "cleanup_step k (xs @ (k, p) # ys) = xs @ ys"
      using look True by (simp add: cleanup_step_def)
    then show ?thesis
      using Cons.IH [OF dx] True by (simp add: e)
  next
    case False
    have step: "cleanup_step k (xs @ (k, p) # ys) = (xs @ [(k, p)]) @ ys"
      using look False by (simp add: cleanup_step_def)
    have "distinct (map fst ((xs @ [(k, p)]) @ ys))"
      using Cons.prems by (simp add: e)
    from Cons.IH [OF this] step False show ?thesis
      by (simp add: e)
  qed
qed

lemma cleanupProjects_filter:
  "distinct (map fst t) \<Longrightarrow>
   cleanupProjects t = filter (\<lambda>e. \<not> seeded_project (fst e) (snd e)) t"
  using cleanup_fold [of "[]" t] by (simp add: cleanupProjects_def Let_def)

lemma cleanupProjects_deleted:
  assumes "distinct (map fst t)" and "(key, proj) \<in> set t" and "seeded_project key proj"
  shows "key \<notin> fst ` set (cleanupProjects t)"
proof
  assume "key \<in> fst ` set (cleanupProjects t)"
  then obtain p' where in': "(key, p') \<in> set t" and keep: "\<not> seeded_project key p'"
    using assms(1) by (auto simp: cleanupProjects_filter)
  from assms(1) in' assms(2) have "p' = proj"
    by (meson eq_key_imp_eq_value)
  with keep assms(3) show False by simp
qed

lemma cleanupProjects_kept:
  assumes "distinct (map fst t)" and "(key, proj) \<in> set t" and "\<not> seeded_project key proj"
  shows "(key, proj) \<in> set (cleanupProjects t)"
  using assms by (simp add: cleanupProjects_filter)

lemma single_coding:
  "(length q = 1 \<and> map_of q ''Coding'' = Some c) = (q = [(''Coding'', c)])" for q :: "(string \<times> nat) list"
proof
  assume a: "length q = 1 \<and> map_of q ''Coding'' = Some c"
  then obtain k v where q: "q = [(k, v)]"
    by (cases q) auto
  with a show "q = [(''Coding'', c)]"
    by (simp split: if_splits)
next
  assume "q = [(''Coding'', c)]"
  then show "length q = 1 \<and> map_of q ''Coding'' = Some c" by simp
qed

lemma seeded_project_iff:
  "seeded_project key proj =
     (\<exists>c. queries proj = Some [(''Coding'', c)] \<and> c \<noteq> 0 \<and>
          (Some c = expectedFromSeed proj \<or> key = ''unknown''))"
proof (cases "queries proj")
  case None
  then show ?thesis by (simp add: seeded_project_def)
next
  case (Some q)
  show ?thesis
  proof (cases "map_of q ''Coding''")
    case None
    then have "\<And>c. q \<noteq> [(''Coding'', c)]" by auto
    with None Some show ?thesis by (simp add: seeded_project_def)
  next
    case (Some c)
    with single_coding [of q c] have "length q = 1 \<longleftrightarrow> q = [(''Coding'', c)]" by simp
    moreover have "\<And>c'. q = [(''Coding'', c')] \<Longrightarrow> c' = c" using Some by simp
    ultimately show ?thesis
      using Some \<open>queries proj = Some q\<close> by (auto simp: seeded_project_def)
  qed
qed

lemma many_queries_not_seeded:
  "queries proj = Some q \<Longrightarrow> 1 < length q \<Longrightarrow> \<not> seeded_project key proj"
  by (simp add: seeded_project_def)

section \<open>Properties of the clean-up\<close>

text \<open>
  C1, as first stated: every entry whose \<open>queries\<close> has the single key \<open>Coding\<close> with the
  value \<open>ceil((inputTokens + outputTokens) / 100)\<close> is deleted. An entry with no tokens
  and \<open>Coding: 0\<close> has that shape and is kept, because the loop tests
  \<open>proj.queries['Coding']\<close> for truthiness.
\<close>

theorem cleanup_keeps_zero_count:
  "Math_ceil (real (0 + 0) / 100) = 0 \<and>
   cleanupProjects
     [(''main'', \<lparr>inputTokens = Some 0, outputTokens = Some 0, queries = Some [(''Coding'', 0)]\<rparr>)]
   = [(''main'', \<lparr>inputTokens = Some 0, outputTokens = Some 0, queries = Some [(''Coding'', 0)]\<rparr>)]"
  by (simp add: Math_ceil_def cleanupProjects_def cleanup_step_def seeded_project_def)

text \<open>
  C1: in a project table, an entry whose \<open>queries\<close> map has exactly the key \<open>Coding\<close>, with
  a non-zero value equal to \<open>ceil((inputTokens + outputTokens) / 100)\<close>, is deleted by the
  clean-up; an entry whose \<open>queries\<close> map has more than one key is retained, whatever its
  totals.
\<close>

theorem cleanup_seeding_signature:
  assumes "distinct (map fst t)" and "(key, proj) \<in> set t"
  shows "(\<forall>c i out. queries proj = Some [(''Coding'', c)] \<and> c \<noteq> 0 \<and>
            inputTokens proj = Some i \<and> outputTokens proj = Some out \<and>
            c = Math_ceil (real (i + out) / 100)
          \<longrightarrow> key \<notin> fst ` set (cleanupProjects t)) \<and>
         (\<forall>q. queries proj = Some q \<and> 1 < length q
          \<longrightarrow> (key, proj) \<in> set (cleanupProjects t))"
proof (intro conjI allI impI)
  fix c i out
  assume h: "queries proj = Some [(''Coding'', c)] \<and> c \<noteq> 0 \<and>
            inputTokens proj = Some i \<and> outputTokens proj = Some out \<and>
            c = Math_ceil (real (i + out) / 100)"
  then have "Some c = expectedFromSeed proj" by (simp add: expectedFromSeed_def)
  with h have "seeded_project key proj" by (auto simp: seeded_project_iff)
  with assms show "key \<notin> fst ` set (cleanupProjects t)" by (rule cleanupProjects_deleted)
next
  fix q
  assume "queries proj = Some q \<and> 1 < length q"
  then have "\<not> seeded_project key proj" by (simp add: many_queries_not_seeded)
  with assms show "(key, proj) \<in> set (cleanupProjects t)" by (rule cleanupProjects_kept)
qed

theorem cleanup_seeding_signature_witness:
  "''main'' \<notin> fst ` set (cleanupProjects
      [(''main'', \<lparr>inputTokens = Some 100, outputTokens = Some 400, queries = Some [(''Coding'', 5)]\<rparr>),
       (''dev'', \<lparr>inputTokens = Some 100, outputTokens = Some 400,
                  queries = Some [(''Coding'', 5), (''Debugging'', 2)]\<rparr>)]) \<and>
   (''dev'', \<lparr>inputTokens = Some 100, outputTokens = Some 400,
              queries = Some [(''Coding'', 5), (''Debugging'', 2)]\<rparr>) \<in> set (cleanupProjects
      [(''main'', \<lparr>inputTokens = Some 100, outputTokens = Some 400, queries = Some [(''Coding'', 5)]\<rparr>),
       (''dev'', \<lparr>inputTokens = Some 100, outputTokens = Some 400,
                  queries = Some [(''Coding'', 5), (''Debugging'', 2)]\<rparr>)])"
  using cleanup_seeding_signature [of
      "[(''main'', \<lparr>inputTokens = Some 100, outputTokens = Some 400, queries = Some [(''Coding'', 5)]\<rparr>),
        (''dev'', \<lparr>inputTokens = Some 100, outputTokens = Some 400,
                  queries = Some [(''Coding'', 5), (''Debugging'', 2)]\<rparr>)]"
      "''main''"
      "\<lparr>inputTokens = Some 100, outputTokens = Some 400, queries = Some [(''Coding'', 5)]\<rparr>"]
    cleanup_seeding_signature [of
      "[(''main'', \<lparr>inputTokens = Some 100, outputTokens = Some 400, queries = Some [(''Coding'', 5)]\<rparr>),
        (''dev'', \<lparr>inputTokens = Some 100, outputTokens = Some 400,
                  queries = Some [(''Coding'', 5), (''Debugging'', 2)]\<rparr>)]"
      "''dev''"
      "\<lparr>inputTokens = Some 100, outputTokens = Some 400,
                  queries = Some [(''Coding'', 5), (''Debugging'', 2)]\<rparr>"]
  by (simp add: Math_ceil_def)


text \<open>
  C4, as first stated: every entry under the key \<open>unknown\<close> is deleted, whatever its
  \<open>queries\<close> map holds. The test \<open>key === 'unknown'\<close> sits inside the test for a single
  \<open>Coding\<close> category, so an \<open>unknown\<close> entry with two categories is kept.
\<close>

theorem cleanup_keeps_unknown_with_categories:
  "cleanupProjects
     [(''unknown'', \<lparr>inputTokens = Some 100, outputTokens = Some 600,
                      queries = Some [(''Coding'', 5), (''Debugging'', 2)]\<rparr>)]
   = [(''unknown'', \<lparr>inputTokens = Some 100, outputTokens = Some 600,
                      queries = Some [(''Coding'', 5), (''Debugging'', 2)]\<rparr>)]"
  by (simp add: cleanupProjects_def cleanup_step_def seeded_project_def)

text \<open>
  C4: the clean-up deletes the entry under the key \<open>unknown\<close> exactly when its \<open>queries\<close>
  map has the single key \<open>Coding\<close> with a non-zero count; the count need not match the
  token totals.
\<close>

theorem cleanup_unknown:
  assumes "distinct (map fst t)" and "(''unknown'', proj) \<in> set t"
  shows "''unknown'' \<notin> fst ` set (cleanupProjects t) \<longleftrightarrow>
         (\<exists>c. queries proj = Some [(''Coding'', c)] \<and> c \<noteq> 0)"
proof (cases "seeded_project ''unknown'' proj")
  case True
  with assms have "''unknown'' \<notin> fst ` set (cleanupProjects t)"
    by (rule cleanupProjects_deleted)
  with True show ?thesis by (auto simp: seeded_project_iff)
next
  case False
  with assms have "(''unknown'', proj) \<in> set (cleanupProjects t)"
    by (rule cleanupProjects_kept)
  then have "''unknown'' \<in> fst ` set (cleanupProjects t)" by force
  with False show ?thesis by (auto simp: seeded_project_iff)
qed

theorem cleanup_unknown_witness:
  "''unknown'' \<notin> fst ` set (cleanupProjects
      [(''main'', \<lparr>inputTokens = Some 8, outputTokens = Some 30, queries = Some [(''Debugging'', 1)]\<rparr>),
       (''unknown'', \<lparr>inputTokens = Some 100, outputTokens = Some 600, queries = Some [(''Coding'', 3)]\<rparr>)])"
  using cleanup_unknown [of
      "[(''main'', \<lparr>inputTokens = Some 8, outputTokens = Some 30, queries = Some [(''Debugging'', 1)]\<rparr>),
        (''unknown'', \<lparr>inputTokens = Some 100, outputTokens = Some 600, queries = Some [(''Coding'', 3)]\<rparr>)]"
      "\<lparr>inputTokens = Some 100, outputTokens = Some 600, queries = Some [(''Coding'', 3)]\<rparr>"]
  by simp

text \<open>
  C10: for every day total of at least 1, the record built by the seeding formula has input
  and output tokens adding up to the day total or to one more, its single \<open>Coding\<close> count
  is non-zero and equals \<open>ceil((inputTokens + outputTokens) / 100)\<close>, so it meets the
  deletion condition of the clean-up and is deleted from any project table that holds it.
\<close>

theorem seeded_entry_is_cleaned:
  assumes "1 \<le> dayTotal"
  shows "(let i = Math_ceil (real dayTotal * 0.2); out = Math_ceil (real dayTotal * 0.8) in
            seededTQ_entry dayTotal =
              \<lparr>inputTokens = Some i, outputTokens = Some out,
               queries = Some [(''Coding'', Math_ceil (real dayTotal / 100))]\<rparr> \<and>
            (i + out = dayTotal \<or> i + out = dayTotal + 1) \<and>
            Math_ceil (real dayTotal / 100) = Math_ceil (real (i + out) / 100) \<and>
            Math_ceil (real dayTotal / 100) \<noteq> 0) \<and>
         seeded_project key (seededTQ_entry dayTotal) \<and>
         (distinct (map fst t) \<and> (key, seededTQ_entry dayTotal) \<in> set t
            \<longrightarrow> key \<notin> fst ` set (cleanupProjects t))"
proof -
  define i out where "i = Math_ceil (real dayTotal * 0.2)"
    and "out = Math_ceil (real dayTotal * 0.8)"
  have io: "i + out = (if dayTotal mod 5 = 0 then dayTotal else dayTotal + 1)"
    unfolding i_def out_def Math_ceil_02 Math_ceil_08 by (rule seed_sum)
  have cnt: "Math_ceil (real dayTotal / 100) = Math_ceil (real (i + out) / 100)"
    unfolding i_def out_def Math_ceil_02 Math_ceil_08 Math_ceil_100 by (rule seed_cnt [symmetric])
  have pos: "Math_ceil (real dayTotal / 100) \<noteq> 0"
    unfolding Math_ceil_100 using assms by simp
  have rec: "seededTQ_entry dayTotal =
      \<lparr>inputTokens = Some i, outputTokens = Some out,
       queries = Some [(''Coding'', Math_ceil (real dayTotal / 100))]\<rparr>"
    by (simp add: seededTQ_entry_def i_def out_def)
  have "expectedFromSeed (seededTQ_entry dayTotal) = Some (Math_ceil (real (i + out) / 100))"
    unfolding rec by (simp add: expectedFromSeed_def)
  with cnt pos have sp: "seeded_project key (seededTQ_entry dayTotal)"
    unfolding seeded_project_iff by (simp add: rec)
  have del: "distinct (map fst t) \<and> (key, seededTQ_entry dayTotal) \<in> set t
            \<longrightarrow> key \<notin> fst ` set (cleanupProjects t)"
    using sp by (auto dest: cleanupProjects_deleted)
  from io have "i + out = dayTotal \<or> i + out = dayTotal + 1" by (simp split: if_splits)
  with rec cnt pos sp del show ?thesis
    unfolding i_def out_def Let_def by blast
qed

theorem seeded_entry_is_cleaned_witness:
  "(1::nat) \<le> 7 \<and>
   seededTQ_entry 7 =
     \<lparr>inputTokens = Some 2, outputTokens = Some 6, queries = Some [(''Coding'', 1)]\<rparr> \<and>
   ''feature-x'' \<notin> fst ` set (cleanupProjects [(''feature-x'', seededTQ_entry 7)])"
proof -
  have h: "(1::nat) \<le> 7" by simp
  from seeded_entry_is_cleaned [OF h, of "''feature-x''" "[(''feature-x'', seededTQ_entry 7)]"]
  show ?thesis by (auto simp add: Let_def Math_ceil_def)
qed

section \<open>Properties of the migration and of the seeding\<close>

lemma migrateLegacy_cases:
  "migrateLegacy s = s \<or>
   (s \<noteq> [] \<and> migrateLegacy s = map (\<lambda>(d, v). (d, Obj [(''Gemini 1.5 Pro'', v)])) s)"
  by (auto simp: migrateLegacy_def split: list.splits jval.splits)

lemma migrateLegacy_wrapped:
  "s \<noteq> [] \<Longrightarrow>
   migrateLegacy (map (\<lambda>(d, v). (d, Obj [(''Gemini 1.5 Pro'', v)])) s) =
     map (\<lambda>(d, v). (d, Obj [(''Gemini 1.5 Pro'', v)])) s"
  by (cases s) (auto simp: migrateLegacy_def)

lemma total_tokens_wrapped:
  "total_tokens (map (\<lambda>(d, v). (d, Obj [(''Gemini 1.5 Pro'', v)])) s) = total_tokens s"
  by (induction s) (auto simp: total_tokens_def)

text \<open>
  C5: migrating a store that was already migrated changes nothing, and the migration
  leaves the total of the tokens over all dates and models as it was.
\<close>

theorem migrateLegacy_idempotent:
  "migrateLegacy (migrateLegacy s) = migrateLegacy s \<and>
   total_tokens (migrateLegacy s) = total_tokens s"
  using migrateLegacy_cases [of s] migrateLegacy_wrapped [of s] total_tokens_wrapped [of s]
  by auto

text \<open>
  C6: seeding changes the token/query table only when that table is empty and the model
  counts are not; a non-empty table is returned as it is; seeding twice gives what
  seeding once gives.
\<close>

theorem seeding_guard:
  "seedTokenQuery stats (seedTokenQuery stats tq) = seedTokenQuery stats tq \<and>
   (tq \<noteq> [] \<longrightarrow> seedTokenQuery stats tq = tq) \<and>
   (seedTokenQuery stats tq \<noteq> tq \<longrightarrow> tq = [] \<and> stats \<noteq> []) \<and>
   (tq = [] \<and> stats \<noteq> [] \<longrightarrow>
      seedTokenQuery stats tq =
        map (\<lambda>(date, models). (date, seededTQ_entry (sum_values models))) stats \<and>
      seedTokenQuery stats tq \<noteq> [])"
proof (cases "tq = [] \<and> stats \<noteq> []")
  case True
  then have run: "seedTokenQuery stats tq =
      map (\<lambda>(date, models). (date, seededTQ_entry (sum_values models))) stats"
    by (simp add: seedTokenQuery_def)
  with True have full: "seedTokenQuery stats tq \<noteq> []" by simp
  then have "seedTokenQuery stats (seedTokenQuery stats tq) = seedTokenQuery stats tq"
    by (simp add: seedTokenQuery_def)
  with True run full show ?thesis by simp
next
  case False
  then have "seedTokenQuery stats tq = tq"
    by (auto simp: seedTokenQuery_def)
  with False show ?thesis by simp
qed

theorem seeding_guard_witness:
  "seedTokenQuery [(''2024-01-01'', [(''Gemini 1.5 Pro'', 250)])] [] =
     [(''2024-01-01'',
       \<lparr>inputTokens = Some 50, outputTokens = Some 200, queries = Some [(''Coding'', 3)]\<rparr>)] \<and>
   seedTokenQuery [(''2024-01-01'', [(''Gemini 1.5 Pro'', 250)])]
     [(''2024-01-02'',
       \<lparr>inputTokens = Some 2, outputTokens = Some 8, queries = Some [(''Debugging'', 1)]\<rparr>)] =
     [(''2024-01-02'',
       \<lparr>inputTokens = Some 2, outputTokens = Some 8, queries = Some [(''Debugging'', 1)]\<rparr>)]"
  using seeding_guard [of "[(''2024-01-01'', [(''Gemini 1.5 Pro'', 250)])]" "[]"]
    seeding_guard [of "[(''2024-01-01'', [(''Gemini 1.5 Pro'', 250)])]"
      "[(''2024-01-02'',
         \<lparr>inputTokens = Some 2, outputTokens = Some 8, queries = Some [(''Debugging'', 1)]\<rparr>)]"]
  by (simp add: seededTQ_entry_def sum_values_def Math_ceil_def)


section \<open>Properties of the branch cache\<close>

text \<open>
  C2, as first stated: once the fallback has failed, every later call within 10 seconds
  returns the cached \<open>no-git-repo\<close> without running the fallback again. The early return
  of \<open>getCurrentBranch\<close> excludes the values \<open>unknown\<close> and \<open>no-git-repo\<close>, so one second
  after a failure the command is run again, whether it then fails or succeeds.
\<close>

theorem failed_lookup_is_retried:
  "getCurrentBranch
     \<lparr>gitBranch = None, now = 1700000000000, wsFolder = True, execSync = None\<rparr> initial_cache =
     (''no-git-repo'',
      \<lparr>cachedBranch = ''no-git-repo'', branchLastChecked = 1700000000000\<rparr>,
      [ExecSyncGitFailed]) \<and>
   getCurrentBranch
     \<lparr>gitBranch = None, now = 1700000001000, wsFolder = True, execSync = None\<rparr>
     \<lparr>cachedBranch = ''no-git-repo'', branchLastChecked = 1700000000000\<rparr> =
     (''no-git-repo'',
      \<lparr>cachedBranch = ''no-git-repo'', branchLastChecked = 1700000001000\<rparr>,
      [ExecSyncGitFailed]) \<and>
   getCurrentBranch
     \<lparr>gitBranch = None, now = 1700000001000, wsFolder = True, execSync = Some ''main''\<rparr>
     \<lparr>cachedBranch = ''no-git-repo'', branchLastChecked = 1700000000000\<rparr> =
     (''main'',
      \<lparr>cachedBranch = ''main'', branchLastChecked = 1700000001000\<rparr>,
      [BranchFromExecSync ''main''])"
  by (simp add: getCurrentBranch_def branch_from_exec_def initial_cache_def)

lemma getCurrentBranch_slow:
  "gitBranch env = None \<or> gitBranch env = Some [] \<Longrightarrow>
   getCurrentBranch env c = branch_from_exec env c"
  by (auto simp: getCurrentBranch_def)

text \<open>
  C2: with the fast source unavailable and a workspace folder open, a failing fallback sets
  the cache to \<open>no-git-repo\<close> and resets the timer; a call that finds \<open>no-git-repo\<close> or
  \<open>unknown\<close> in the cache, or a cache older than 10 seconds, runs the fallback again and
  returns its result; only a cached value other than \<open>unknown\<close> and \<open>no-git-repo\<close> is
  returned without running the fallback, within the 10 seconds.
\<close>

theorem sentinel_not_served_from_cache:
  assumes "gitBranch env = None \<or> gitBranch env = Some []" and "wsFolder env"
  shows "(execSync env = None \<and>
          \<not> (now env - branchLastChecked c < 10000 \<and> cachedBranch c \<noteq> ''unknown''
               \<and> cachedBranch c \<noteq> ''no-git-repo'')
          \<longrightarrow> getCurrentBranch env c =
                (''no-git-repo'',
                 \<lparr>cachedBranch = ''no-git-repo'', branchLastChecked = now env\<rparr>,
                 [ExecSyncGitFailed])) \<and>
         (cachedBranch c = ''no-git-repo'' \<or> cachedBranch c = ''unknown''
            \<or> 10000 \<le> now env - branchLastChecked c
          \<longrightarrow> getCurrentBranch env c =
                (case execSync env of
                   Some out \<Rightarrow>
                     (out, \<lparr>cachedBranch = out, branchLastChecked = now env\<rparr>,
                      [BranchFromExecSync out])
                 | None \<Rightarrow>
                     (''no-git-repo'',
                      \<lparr>cachedBranch = ''no-git-repo'', branchLastChecked = now env\<rparr>,
                      [ExecSyncGitFailed]))) \<and>
         (now env - branchLastChecked c < 10000 \<and> cachedBranch c \<noteq> ''unknown''
            \<and> cachedBranch c \<noteq> ''no-git-repo''
          \<longrightarrow> getCurrentBranch env c = (cachedBranch c, c, []))"
  unfolding getCurrentBranch_slow [OF assms(1)]
  using assms(2) by (auto simp: branch_from_exec_def split: option.splits)

theorem sentinel_not_served_from_cache_witness:
  "getCurrentBranch
     \<lparr>gitBranch = None, now = 1700000001000, wsFolder = True, execSync = None\<rparr>
     \<lparr>cachedBranch = ''no-git-repo'', branchLastChecked = 1700000000000\<rparr> =
     (''no-git-repo'',
      \<lparr>cachedBranch = ''no-git-repo'', branchLastChecked = 1700000001000\<rparr>,
      [ExecSyncGitFailed]) \<and>
   getCurrentBranch
     \<lparr>gitBranch = None, now = 1700000001000, wsFolder = True, execSync = Some ''main''\<rparr>
     \<lparr>cachedBranch = ''unknown'', branchLastChecked = 1700000000000\<rparr> =
     (''main'', \<lparr>cachedBranch = ''main'', branchLastChecked = 1700000001000\<rparr>,
      [BranchFromExecSync ''main'']) \<and>
   getCurrentBranch
     \<lparr>gitBranch = None, now = 1700000001000, wsFolder = True, execSync = None\<rparr>
     \<lparr>cachedBranch = ''main'', branchLastChecked = 1700000000000\<rparr> =
     (''main'', \<lparr>cachedBranch = ''main'', branchLastChecked = 1700000000000\<rparr>, [])"
  using sentinel_not_served_from_cache [of
      "\<lparr>gitBranch = None, now = 1700000001000, wsFolder = True, execSync = None\<rparr>"
      "\<lparr>cachedBranch = ''no-git-repo'', branchLastChecked = 1700000000000\<rparr>"]
    sentinel_not_served_from_cache [of
      "\<lparr>gitBranch = None, now = 1700000001000, wsFolder = True, execSync = Some ''main''\<rparr>"
      "\<lparr>cachedBranch = ''unknown'', branchLastChecked = 1700000000000\<rparr>"]
    sentinel_not_served_from_cache [of
      "\<lparr>gitBranch = None, now = 1700000001000, wsFolder = True, execSync = None\<rparr>"
      "\<lparr>cachedBranch = ''main'', branchLastChecked = 1700000000000\<rparr>"]
  by simp

section \<open>Properties of the classifier\<close>

text \<open>
  C3: a text holding \<open>@param\<close> or \<open>/**\<close> and no keyword of the Debugging or Search rules
  should be classified as Documentation. The documentation comment below holds both and
  is classified as a general question: \<open>\b\<close> before \<open>/\<close> or \<open>@\<close> asks for a word
  character in front of it.
\<close>

theorem doc_comment_is_general_question:
  "\<not> regex_test debugging_keywords None
        (toLowerCase ''/** @param userName the display name */'') \<and>
   \<not> regex_test search_keywords None
        (toLowerCase ''/** @param userName the display name */'') \<and>
   classifyQuery ''/** @param userName the display name */'' = ''General Question''"
  by code_simp

section \<open>Properties of the change listener\<close>

lemma map_of_put_index:
  "map_of obj k = None \<Longrightarrow> map_of (put_index n (k, v) obj) = (map_of obj)(k \<mapsto> v)"
proof (induction obj)
  case Nil
  then show ?case by simp
next
  case (Cons p ps)
  from Cons.prems have pk: "fst p \<noteq> k" and rest: "map_of ps k = None"
    by (auto split: if_splits)
  from Cons.IH [OF rest] pk show ?case
    by (cases p) (auto simp: fun_upd_twist split: option.splits)
qed

lemma map_of_js_put: "map_of (js_put k v obj) = (map_of obj)(k \<mapsto> v)"
proof (cases "map_of obj k")
  case None
  then have "map_of (obj @ [(k, v)]) = (map_of obj)(k \<mapsto> v)"
    by (auto simp: map_add_def fun_eq_iff split: option.splits)
  with None show ?thesis
    by (simp add: js_put_def map_of_put_index split: option.splits)
next
  case (Some old)
  then show ?thesis by (simp add: js_put_def update_conv')
qed

lemma map_of_add_count_same:
  "map_of (add_count k n obj) k = Some ((case map_of obj k of None \<Rightarrow> 0 | Some v \<Rightarrow> v) + n)"
  by (simp add: add_count_def map_of_js_put)

lemma model_tokens_record:
  "model_tokens (recordUsage d n stats) (toISODate d) defaultModel =
     model_tokens stats (toISODate d) defaultModel + n"
  by (simp add: model_tokens_def recordUsage_def Let_def map_of_js_put
      map_of_add_count_same split: option.splits)

lemma resolve_ordinary:
  "key \<notin> set prototype_names \<Longrightarrow>
   resolve key tbl protos = (case map_of tbl key of None \<Rightarrow> Undefined | Some r \<Rightarrow> Own r)"
  by (auto simp: resolve_def prototype_names_def split: option.splits)

lemma resolve_own: "map_of tbl key = Some r \<Longrightarrow> resolve key tbl protos = Own r"
  by (simp add: resolve_def)

lemma no_hyphen_in_prototype_names: "\<forall>name \<in> set prototype_names. CHR ''-'' \<notin> set name"
  by (simp add: prototype_names_def inherited_methods_def)

lemma date_key_ordinary: "toISODate d \<notin> set prototype_names"
proof
  assume "toISODate d \<in> set prototype_names"
  with no_hyphen_in_prototype_names have "CHR ''-'' \<notin> set (toISODate d)" by blast
  then show False by (simp add: toISODate_def)
qed

lemma track_object_input:
  "inputTokens (fst (track_object i out qt target proto)) =
     Some (or_zero (inputTokens target) (inputTokens proto) + i)"
  by (simp add: track_object_def Let_def split: option.splits)

lemma track_object_output:
  "outputTokens (fst (track_object i out qt target proto)) =
     Some (or_zero (outputTokens target) (outputTokens proto) + out)"
  by (simp add: track_object_def Let_def split: option.splits)

lemma track_object_proto:
  "inputTokens (snd (track_object i out qt target proto)) = inputTokens proto \<and>
   outputTokens (snd (track_object i out qt target proto)) = outputTokens proto"
  by (simp add: track_object_def Let_def split: option.splits)

lemma record_own:
  assumes "map_of tbl key = Some r"
  shows "recordTokenQuery key i out qt tbl protos =
     Inr (js_put key (fst (track_object i out qt r (objectPrototype protos))) tbl,
          protos\<lparr>objectPrototype := snd (track_object i out qt r (objectPrototype protos))\<rparr>)"
  using resolve_own [OF assms, of protos]
  by (simp add: recordTokenQuery_def Let_def case_prod_beta)

lemma track_fresh_proto:
  "snd (track_object i out qt
          \<lparr>inputTokens = Some 0, outputTokens = Some 0, queries = Some []\<rparr> proto) = proto"
  by (simp add: track_object_def Let_def)

lemma record_new:
  assumes "map_of tbl key = None" and "key \<notin> set prototype_names"
  shows "recordTokenQuery key i out qt tbl protos =
     Inr (js_put key
            (fst (track_object i out qt
                    \<lparr>inputTokens = Some 0, outputTokens = Some 0, queries = Some []\<rparr>
                    (objectPrototype protos))) tbl,
          protos)"
proof -
  have "resolve key tbl protos = Undefined"
    using resolve_ordinary [OF assms(2), of tbl protos] assms(1) by simp
  then show ?thesis
    using track_fresh_proto [of i out qt "objectPrototype protos"]
    by (simp add: recordTokenQuery_def Let_def case_prod_beta)
qed

lemma record_plain:
  assumes "map_of tbl key \<noteq> None \<or> key \<notin> set prototype_names"
  shows "\<exists>tbl' protos'.
           recordTokenQuery key i out qt tbl protos = Inr (tbl', protos') \<and>
           (\<forall>P. input_of P tbl' key = input_of (objectPrototype protos) tbl key + i) \<and>
           (\<forall>P. output_of P tbl' key = output_of (objectPrototype protos) tbl key + out) \<and>
           inputTokens (objectPrototype protos') = inputTokens (objectPrototype protos) \<and>
           outputTokens (objectPrototype protos') = outputTokens (objectPrototype protos)"
proof (cases "map_of tbl key")
  case None
  with assms have "key \<notin> set prototype_names" by simp
  from record_new [OF None this] None show ?thesis
    by (simp add: input_of_def output_of_def map_of_js_put track_object_input
        track_object_output or_zero_def)
next
  case (Some r)
  from record_own [OF Some] Some show ?thesis
    by (simp add: input_of_def output_of_def map_of_js_put track_object_input
        track_object_output track_object_proto or_zero_def)
qed

lemma record_inherited:
  assumes "map_of tbl key = None" and "key = ''__proto__'' \<or> key \<in> set inherited_methods"
  shows "\<exists>protos'. recordTokenQuery key i out qt tbl protos = Inr (tbl, protos')"
proof -
  from assms have "resolve key tbl protos = ObjectPrototype \<or> resolve key tbl protos = Method key"
    by (auto simp: resolve_def)
  then show ?thesis
    by (auto simp: recordTokenQuery_def Let_def case_prod_beta)
qed

text \<open>
  Three lookups that do not end in the table: under \<open>constructor\<close> and under \<open>__proto__\<close>
  no entry is created, and once \<open>Object.prototype\<close> holds a number under \<open>inputTokens\<close>, a
  branch of that name makes the listener throw. New array indices go before the other
  keys.
\<close>

lemma array_index_order:
  "js_put ''10'' (1::nat) [(''2'', 5), (''30'', 6), (''main'', 7)] =
     [(''2'', 5), (''10'', 1), (''30'', 6), (''main'', 7)]"
  by (simp add: js_put_def array_index_def digits_value_def is_digit_def Let_def)

lemma branch_constructor:
  "recordProject ''constructor'' 2 8 ''Coding'' [] clean_prototypes =
     Inr ([], \<lparr>objectPrototype = no_properties,
               methodObjects =
                 [(''constructor'', \<lparr>inputTokens = Some 2, outputTokens = Some 8,
                                      queries = Some [(''Coding'', 1)]\<rparr>)]\<rparr>)"
  by (simp add: recordProject_def recordTokenQuery_def resolve_def inherited_methods_def
      clean_prototypes_def no_properties_def track_object_def or_zero_def add_count_def
      js_put_def array_index_def digits_value_def is_digit_def Let_def)

lemma branch_proto:
  "recordProject ''__proto__'' 2 8 ''Coding'' [] clean_prototypes =
     Inr ([], \<lparr>objectPrototype = \<lparr>inputTokens = Some 2, outputTokens = Some 8,
                                   queries = Some [(''Coding'', 1)]\<rparr>,
               methodObjects = []\<rparr>)"
  by (simp add: recordProject_def recordTokenQuery_def resolve_def inherited_methods_def
      clean_prototypes_def no_properties_def track_prototype_def or_zero_def add_count_def
      js_put_def array_index_def digits_value_def is_digit_def Let_def)

lemma branch_inputTokens_throws:
  "recordProject ''inputTokens'' 2 8 ''Coding'' []
     \<lparr>objectPrototype = \<lparr>inputTokens = Some 2, outputTokens = Some 8,
                         queries = Some [(''Coding'', 1)]\<rparr>,
      methodObjects = []\<rparr> = Inl TypeError"
  by (simp add: recordProject_def recordTokenQuery_def resolve_def inherited_methods_def)

lemma input_of_cong:
  "inputTokens P = inputTokens P' \<Longrightarrow> input_of P tbl key = input_of P' tbl key"
  by (simp add: input_of_def split: option.splits)

lemma output_of_cong:
  "outputTokens P = outputTokens P' \<Longrightarrow> output_of P tbl key = output_of P' tbl key"
  by (simp add: output_of_def split: option.splits)

lemma on_change_small: "length text \<le> 30 \<Longrightarrow> on_change env text s = (None, s)"
  by (simp add: on_change_def)

lemma input_of_empty: "input_of P [] key = 0"
  by (simp add: input_of_def)

lemma output_of_empty: "output_of P [] key = 0"
  by (simp add: output_of_def)

lemma model_tokens_empty: "model_tokens [] date model = 0"
  by (simp add: model_tokens_def)

text \<open>
  C7: for a change of more than 30 characters, the output estimate is
  \<open>ceil(length / 4)\<close> and the input estimate is \<open>ceil(output * 0.2)\<close>; these are the amounts
  added to the token/query entry of the date, their sum is added to the model count of the
  date, and they are the amounts added to the project entry of the branch whenever the
  branch has an entry of its own or its name is not found on \<open>Object.prototype\<close>. Under a
  branch without an entry that is named \<open>__proto__\<close> or like an inherited method, the
  project table stays as it is.
\<close>

theorem estimates_recorded:
  assumes "30 < length text"
  shows "(let (thrown, s') = on_change env text s;
              out = nat \<lceil>real (length text) / 4\<rceil>;
              inp = nat \<lceil>real out * 0.2\<rceil>;
              date = toISODate (today env);
              branch = fst (getCurrentBranch (branchEnv env) (branchCache s));
              proto = objectPrototype (prototypeObjects s);
              proto' = objectPrototype (prototypeObjects s')
          in output_of proto' (daily_token_query_stats (globalState s')) date =
               output_of proto (daily_token_query_stats (globalState s)) date + out \<and>
             input_of proto' (daily_token_query_stats (globalState s')) date =
               input_of proto (daily_token_query_stats (globalState s)) date + inp \<and>
             model_tokens (daily_usage_stats (globalState s')) date defaultModel =
               model_tokens (daily_usage_stats (globalState s)) date defaultModel + (inp + out) \<and>
             Tracked (classifyQuery text) inp out \<in> set (console s') \<and>
             (map_of (project_usage_stats (globalState s)) branch \<noteq> None \<or>
                branch \<notin> set prototype_names \<longrightarrow>
                thrown = None \<and>
                output_of proto' (project_usage_stats (globalState s')) branch =
                  output_of proto (project_usage_stats (globalState s)) branch + out \<and>
                input_of proto' (project_usage_stats (globalState s')) branch =
                  input_of proto (project_usage_stats (globalState s)) branch + inp) \<and>
             (map_of (project_usage_stats (globalState s)) branch = None \<and>
                (branch = ''__proto__'' \<or> branch \<in> set inherited_methods) \<longrightarrow>
                thrown = None \<and>
                project_usage_stats (globalState s') = project_usage_stats (globalState s)))"
proof -
  define out inp qt date where "out = Math_ceil (real (length text) / 4)"
    and "inp = Math_ceil (real out * 0.2)"
    and "qt = classifyQuery text"
    and "date = toISODate (today env)"
  define tq proj protos where "tq = daily_token_query_stats (globalState s)"
    and "proj = project_usage_stats (globalState s)"
    and "protos = prototypeObjects s"
  have "map_of tq date \<noteq> None \<or> date \<notin> set prototype_names"
    unfolding date_def using date_key_ordinary by blast
  from record_plain [OF this, of inp out qt protos]
  obtain tq' protos1 where
    step2: "recordTokenQuery date inp out qt tq protos = Inr (tq', protos1)"
    and tq_in: "\<And>P. input_of P tq' date = input_of (objectPrototype protos) tq date + inp"
    and tq_out: "\<And>P. output_of P tq' date = output_of (objectPrototype protos) tq date + out"
    and p1_in: "inputTokens (objectPrototype protos1) = inputTokens (objectPrototype protos)"
    and p1_out: "outputTokens (objectPrototype protos1) = outputTokens (objectPrototype protos)"
    by blast
  obtain branch cache1 lines1 where
    gb: "getCurrentBranch (branchEnv env) (branchCache s) = (branch, cache1, lines1)"
    by (cases "getCurrentBranch (branchEnv env) (branchCache s)") auto
  have fold_out: "Math_ceil (real (length text) / 4) = out" by (simp add: out_def)
  have fold_inp: "Math_ceil (real out / 5) = inp" by (simp add: inp_def)
  have fold_out': "nat \<lceil>real (length text) / 4\<rceil> = out" by (simp add: out_def Math_ceil_def)
  have fold_inp': "nat \<lceil>real out / 5\<rceil> = inp" by (simp add: inp_def Math_ceil_def)
  note defs = fold_out fold_inp fold_out' fold_inp' qt_def [symmetric] date_def [symmetric]
    tq_def [symmetric] proj_def [symmetric] protos_def [symmetric]
  have usage: "\<And>st. model_tokens (recordUsage (today env) (inp + out)
        (daily_usage_stats (globalState s))) date defaultModel =
      model_tokens (daily_usage_stats (globalState s)) date defaultModel + (inp + out)"
    unfolding date_def by (rule model_tokens_record)
  show ?thesis
  proof (cases "recordProject branch inp out qt proj protos1")
    case (Inl e)
    then have oc: "on_change env text s =
        (Some e,
         s\<lparr>globalState := (globalState s)\<lparr>daily_usage_stats :=
               recordUsage (today env) (inp + out) (daily_usage_stats (globalState s)),
               daily_token_query_stats := tq'\<rparr>,
           aiUsageCount := aiUsageCount s + 1,
           aiGeneratedChars := aiGeneratedChars s + length text,
           prototypeObjects := protos1,
           branchCache := cache1,
           console := console s @ [Tracked qt inp out] @ lines1\<rparr>)"
      using assms step2 gb by (simp add: on_change_def Let_def defs)
    have no_plain: "\<not> (map_of proj branch \<noteq> None \<or> branch \<notin> set prototype_names)"
    proof
      assume "map_of proj branch \<noteq> None \<or> branch \<notin> set prototype_names"
      from record_plain [OF this, of inp out qt protos1] Inl show False
        by (auto simp: recordProject_def)
    qed
    have no_inh: "\<not> (map_of proj branch = None \<and>
        (branch = ''__proto__'' \<or> branch \<in> set inherited_methods))"
    proof
      assume "map_of proj branch = None \<and>
        (branch = ''__proto__'' \<or> branch \<in> set inherited_methods)"
      then have "\<exists>protos'. recordTokenQuery branch inp out qt proj protos1 = Inr (proj, protos')"
        by (intro record_inherited) simp_all
      with Inl show False by (auto simp: recordProject_def)
    qed
    show ?thesis
      using no_plain no_inh usage tq_in tq_out
      by (simp add: oc gb Let_def defs)
  next
    case (Inr res)
    obtain proj' protos2 where res: "res = (proj', protos2)" by (cases res)
    obtain cache2 lines2 where live:
      "(if activePanel s then
          (let (b, c, ls) = getCurrentBranch (liveUpdateEnv env) cache1 in (c, ls))
        else (cache1, [])) = (cache2, lines2)"
      by (cases "(if activePanel s then
          (let (b, c, ls) = getCurrentBranch (liveUpdateEnv env) cache1 in (c, ls))
        else (cache1, []))") auto
    have oc: "on_change env text s =
        (None,
         s\<lparr>globalState := (globalState s)\<lparr>daily_usage_stats :=
               recordUsage (today env) (inp + out) (daily_usage_stats (globalState s)),
               daily_token_query_stats := tq', project_usage_stats := proj'\<rparr>,
           aiUsageCount := aiUsageCount s + 1,
           aiGeneratedChars := aiGeneratedChars s + length text,
           prototypeObjects := protos2,
           branchCache := cache2,
           console := console s @ [Tracked qt inp out] @ lines1 @ [ProjectTracked branch]
             @ lines2\<rparr>)"
      using assms step2 gb Inr res live by (simp add: on_change_def Let_def defs)
    have plain: "map_of proj branch \<noteq> None \<or> branch \<notin> set prototype_names \<Longrightarrow>
        output_of (objectPrototype protos2) proj' branch =
          output_of (objectPrototype protos) proj branch + out \<and>
        input_of (objectPrototype protos2) proj' branch =
          input_of (objectPrototype protos) proj branch + inp"
    proof -
      assume "map_of proj branch \<noteq> None \<or> branch \<notin> set prototype_names"
      from record_plain [OF this, of inp out qt protos1] Inr res
      have a: "\<And>P. input_of P proj' branch = input_of (objectPrototype protos1) proj branch + inp"
        and b: "\<And>P. output_of P proj' branch = output_of (objectPrototype protos1) proj branch + out"
        by (auto simp: recordProject_def)
      from a b input_of_cong [OF p1_in] output_of_cong [OF p1_out] show ?thesis by simp
    qed
    have inh: "map_of proj branch = None \<and>
        (branch = ''__proto__'' \<or> branch \<in> set inherited_methods) \<Longrightarrow> proj' = proj"
    proof -
      assume "map_of proj branch = None \<and>
        (branch = ''__proto__'' \<or> branch \<in> set inherited_methods)"
      then have "\<exists>protos'. recordTokenQuery branch inp out qt proj protos1 = Inr (proj, protos')"
        by (intro record_inherited) simp_all
      with Inr res show ?thesis by (auto simp: recordProject_def)
    qed
    show ?thesis
      using plain inh usage tq_in tq_out
      by (simp add: oc gb Let_def defs)
  qed
qed

theorem estimates_recorded_witness:
  "30 < length ''there is a bug in the parser that drops the last token when the input ends without a newline so the count is off by one.'' \<and>
   output_of (objectPrototype (prototypeObjects (snd (on_change
        \<lparr>today = \<lparr>year = 2024, month = 3, day = 15\<rparr>,
         branchEnv = \<lparr>gitBranch = Some ''main'', now = 1704067200000, wsFolder = True, execSync = None\<rparr>,
         liveUpdateEnv = \<lparr>gitBranch = Some ''main'', now = 1704067200000, wsFolder = True, execSync = None\<rparr>\<rparr>
        ''there is a bug in the parser that drops the last token when the input ends without a newline so the count is off by one.''
        \<lparr>globalState = \<lparr>daily_usage_stats = [], daily_token_query_stats = [], project_usage_stats = []\<rparr>,
         aiUsageCount = 0, aiGeneratedChars = 0, branchCache = initial_cache,
         activePanel = False, console = [], prototypeObjects = clean_prototypes\<rparr>))))
     (daily_token_query_stats (globalState (snd (on_change
        \<lparr>today = \<lparr>year = 2024, month = 3, day = 15\<rparr>,
         branchEnv = \<lparr>gitBranch = Some ''main'', now = 1704067200000, wsFolder = True, execSync = None\<rparr>,
         liveUpdateEnv = \<lparr>gitBranch = Some ''main'', now = 1704067200000, wsFolder = True, execSync = None\<rparr>\<rparr>
        ''there is a bug in the parser that drops the last token when the input ends without a newline so the count is off by one.''
        \<lparr>globalState = \<lparr>daily_usage_stats = [], daily_token_query_stats = [], project_usage_stats = []\<rparr>,
         aiUsageCount = 0, aiGeneratedChars = 0, branchCache = initial_cache,
         activePanel = False, console = [], prototypeObjects = clean_prototypes\<rparr>)))) ''2024-03-15'' = 30 \<and>
   input_of (objectPrototype (prototypeObjects (snd (on_change
        \<lparr>today = \<lparr>year = 2024, month = 3, day = 15\<rparr>,
         branchEnv = \<lparr>gitBranch = Some ''main'', now = 1704067200000, wsFolder = True, execSync = None\<rparr>,
         liveUpdateEnv = \<lparr>gitBranch = Some ''main'', now = 1704067200000, wsFolder = True, execSync = None\<rparr>\<rparr>
        ''there is a bug in the parser that drops the last token when the input ends without a newline so the count is off by one.''
        \<lparr>globalState = \<lparr>daily_usage_stats = [], daily_token_query_stats = [], project_usage_stats = []\<rparr>,
         aiUsageCount = 0, aiGeneratedChars = 0, branchCache = initial_cache,
         activePanel = False, console = [], prototypeObjects = clean_prototypes\<rparr>))))
     (daily_token_query_stats (globalState (snd (on_change
        \<lparr>today = \<lparr>year = 2024, month = 3, day = 15\<rparr>,
         branchEnv = \<lparr>gitBranch = Some ''main'', now = 1704067200000, wsFolder = True, execSync = None\<rparr>,
         liveUpdateEnv = \<lparr>gitBranch = Some ''main'', now = 1704067200000, wsFolder = True, execSync = None\<rparr>\<rparr>
        ''there is a bug in the parser that drops the last token when the input ends without a newline so the count is off by one.''
        \<lparr>globalState = \<lparr>daily_usage_stats = [], daily_token_query_stats = [], project_usage_stats = []\<rparr>,
         aiUsageCount = 0, aiGeneratedChars = 0, branchCache = initial_cache,
         activePanel = False, console = [], prototypeObjects = clean_prototypes\<rparr>)))) ''2024-03-15'' = 6 \<and>
   input_of (objectPrototype (prototypeObjects (snd (on_change
        \<lparr>today = \<lparr>year = 2024, month = 3, day = 15\<rparr>,
         branchEnv = \<lparr>gitBranch = Some ''main'', now = 1704067200000, wsFolder = True, execSync = None\<rparr>,
         liveUpdateEnv = \<lparr>gitBranch = Some ''main'', now = 1704067200000, wsFolder = True, execSync = None\<rparr>\<rparr>
        ''there is a bug in the parser that drops the last token when the input ends without a newline so the count is off by one.''
        \<lparr>globalState = \<lparr>daily_usage_stats = [], daily_token_query_stats = [], project_usage_stats = []\<rparr>,
         aiUsageCount = 0, aiGeneratedChars = 0, branchCache = initial_cache,
         activePanel = False, console = [], prototypeObjects = clean_prototypes\<rparr>))))
     (project_usage_stats (globalState (snd (on_change
        \<lparr>today = \<lparr>year = 2024, month = 3, day = 15\<rparr>,
         branchEnv = \<lparr>gitBranch = Some ''main'', now = 1704067200000, wsFolder = True, execSync = None\<rparr>,
         liveUpdateEnv = \<lparr>gitBranch = Some ''main'', now = 1704067200000, wsFolder = True, execSync = None\<rparr>\<rparr>
        ''there is a bug in the parser that drops the last token when the input ends without a newline so the count is off by one.''
        \<lparr>globalState = \<lparr>daily_usage_stats = [], daily_token_query_stats = [], project_usage_stats = []\<rparr>,
         aiUsageCount = 0, aiGeneratedChars = 0, branchCache = initial_cache,
         activePanel = False, console = [], prototypeObjects = clean_prototypes\<rparr>)))) ''main'' = 6 \<and>
   model_tokens (daily_usage_stats (globalState (snd (on_change
        \<lparr>today = \<lparr>year = 2024, month = 3, day = 15\<rparr>,
         branchEnv = \<lparr>gitBranch = Some ''main'', now = 1704067200000, wsFolder = True, execSync = None\<rparr>,
         liveUpdateEnv = \<lparr>gitBranch = Some ''main'', now = 1704067200000, wsFolder = True, execSync = None\<rparr>\<rparr>
        ''there is a bug in the parser that drops the last token when the input ends without a newline so the count is off by one.''
        \<lparr>globalState = \<lparr>daily_usage_stats = [], daily_token_query_stats = [], project_usage_stats = []\<rparr>,
         aiUsageCount = 0, aiGeneratedChars = 0, branchCache = initial_cache,
         activePanel = False, console = [], prototypeObjects = clean_prototypes\<rparr>)))) ''2024-03-15'' defaultModel = 36 \<and>
   project_usage_stats (globalState (snd (on_change
        \<lparr>today = \<lparr>year = 2024, month = 3, day = 15\<rparr>,
         branchEnv = \<lparr>gitBranch = Some ''constructor'', now = 1704067200000, wsFolder = True, execSync = None\<rparr>,
         liveUpdateEnv = \<lparr>gitBranch = Some ''constructor'', now = 1704067200000, wsFolder = True, execSync = None\<rparr>\<rparr>
        ''there is a bug in the parser that drops the last token when the input ends without a newline so the count is off by one.''
        \<lparr>globalState = \<lparr>daily_usage_stats = [], daily_token_query_stats = [], project_usage_stats = []\<rparr>,
         aiUsageCount = 0, aiGeneratedChars = 0, branchCache = initial_cache,
         activePanel = False, console = [], prototypeObjects = clean_prototypes\<rparr>))) = []"
proof -
  have h: "30 < length ''there is a bug in the parser that drops the last token when the input ends without a newline so the count is off by one.''"
    by simp
  have main: "''main'' \<notin> set prototype_names"
    by (simp add: prototype_names_def inherited_methods_def)
  have date: "toISODate \<lparr>year = 2024, month = 3, day = 15\<rparr> = ''2024-03-15''"
    by (simp add: toISODate_def pad_def)
  from estimates_recorded [OF h, of
        "\<lparr>today = \<lparr>year = 2024, month = 3, day = 15\<rparr>,
         branchEnv = \<lparr>gitBranch = Some ''main'', now = 1704067200000, wsFolder = True, execSync = None\<rparr>,
         liveUpdateEnv = \<lparr>gitBranch = Some ''main'', now = 1704067200000, wsFolder = True, execSync = None\<rparr>\<rparr>"
        "\<lparr>globalState = \<lparr>daily_usage_stats = [], daily_token_query_stats = [], project_usage_stats = []\<rparr>,
         aiUsageCount = 0, aiGeneratedChars = 0, branchCache = initial_cache,
         activePanel = False, console = [], prototypeObjects = clean_prototypes\<rparr>"] main
    estimates_recorded [OF h, of
        "\<lparr>today = \<lparr>year = 2024, month = 3, day = 15\<rparr>,
         branchEnv = \<lparr>gitBranch = Some ''constructor'', now = 1704067200000, wsFolder = True, execSync = None\<rparr>,
         liveUpdateEnv = \<lparr>gitBranch = Some ''constructor'', now = 1704067200000, wsFolder = True, execSync = None\<rparr>\<rparr>"
        "\<lparr>globalState = \<lparr>daily_usage_stats = [], daily_token_query_stats = [], project_usage_stats = []\<rparr>,
         aiUsageCount = 0, aiGeneratedChars = 0, branchCache = initial_cache,
         activePanel = False, console = [], prototypeObjects = clean_prototypes\<rparr>"]
  show ?thesis
    by (simp add: Let_def case_prod_beta date input_of_empty output_of_empty
        model_tokens_empty getCurrentBranch_def inherited_methods_def)
qed

lemma onDidChange_small:
  "\<forall>(env, text) \<in> set contentChanges. length text \<le> 30 \<Longrightarrow>
   onDidChangeTextDocument contentChanges s = (None, s)"
  by (induction contentChanges) (auto simp: on_change_small)

text \<open>
  C8: an event whose changes all insert at most 30 characters leaves the whole state as
  it was and throws nothing: the three tables, the session counters, the branch cache, the
  prototype objects and the console, on which every classification writes a line.
\<close>

theorem small_edits_ignored:
  assumes "\<forall>(env, text) \<in> set contentChanges. length text \<le> 30"
  shows "onDidChangeTextDocument contentChanges s = (None, s)"
  using assms by (rule onDidChange_small)

theorem small_edits_ignored_witness:
  "onDidChangeTextDocument
     [(\<lparr>today = \<lparr>year = 2024, month = 3, day = 15\<rparr>,
        branchEnv = \<lparr>gitBranch = Some ''main'', now = 1704067200000, wsFolder = True, execSync = None\<rparr>,
        liveUpdateEnv = \<lparr>gitBranch = Some ''main'', now = 1704067200000, wsFolder = True, execSync = None\<rparr>\<rparr>,
       ''x''),
      (\<lparr>today = \<lparr>year = 2024, month = 3, day = 15\<rparr>,
        branchEnv = \<lparr>gitBranch = Some ''main'', now = 1704067200000, wsFolder = True, execSync = None\<rparr>,
        liveUpdateEnv = \<lparr>gitBranch = Some ''main'', now = 1704067200000, wsFolder = True, execSync = None\<rparr>\<rparr>,
       ''const total = a + b; // fix it'')]
     \<lparr>globalState =
        \<lparr>daily_usage_stats = [(''2024-03-15'', [(''Gemini 1.5 Pro'', 36)])],
         daily_token_query_stats =
           [(''2024-03-15'', \<lparr>inputTokens = Some 6, outputTokens = Some 30,
                               queries = Some [(''Debugging'', 1)]\<rparr>)],
         project_usage_stats =
           [(''main'', \<lparr>inputTokens = Some 6, outputTokens = Some 30,
                        queries = Some [(''Debugging'', 1)]\<rparr>)]\<rparr>,
      aiUsageCount = 1, aiGeneratedChars = 120, branchCache = initial_cache,
      activePanel = True, console = [], prototypeObjects = clean_prototypes\<rparr> =
     (None,
      \<lparr>globalState =
        \<lparr>daily_usage_stats = [(''2024-03-15'', [(''Gemini 1.5 Pro'', 36)])],
         daily_token_query_stats =
           [(''2024-03-15'', \<lparr>inputTokens = Some 6, outputTokens = Some 30,
                               queries = Some [(''Debugging'', 1)]\<rparr>)],
         project_usage_stats =
           [(''main'', \<lparr>inputTokens = Some 6, outputTokens = Some 30,
                        queries = Some [(''Debugging'', 1)]\<rparr>)]\<rparr>,
      aiUsageCount = 1, aiGeneratedChars = 120, branchCache = initial_cache,
      activePanel = True, console = [], prototypeObjects = clean_prototypes\<rparr>) \<and>
   length ''const total = a + b; // fix it'' = 30"
  using small_edits_ignored [of
     "[(\<lparr>today = \<lparr>year = 2024, month = 3, day = 15\<rparr>,
        branchEnv = \<lparr>gitBranch = Some ''main'', now = 1704067200000, wsFolder = True, execSync = None\<rparr>,
        liveUpdateEnv = \<lparr>gitBranch = Some ''main'', now = 1704067200000, wsFolder = True, execSync = None\<rparr>\<rparr>,
       ''x''),
      (\<lparr>today = \<lparr>year = 2024, month = 3, day = 15\<rparr>,
        branchEnv = \<lparr>gitBranch = Some ''main'', now = 1704067200000, wsFolder = True, execSync = None\<rparr>,
        liveUpdateEnv = \<lparr>gitBranch = Some ''main'', now = 1704067200000, wsFolder = True, execSync = None\<rparr>\<rparr>,
       ''const total = a + b; // fix it'')]"
     "\<lparr>globalState =
        \<lparr>daily_usage_stats = [(''2024-03-15'', [(''Gemini 1.5 Pro'', 36)])],
         daily_token_query_stats =
           [(''2024-03-15'', \<lparr>inputTokens = Some 6, outputTokens = Some 30,
                               queries = Some [(''Debugging'', 1)]\<rparr>)],
         project_usage_stats =
           [(''main'', \<lparr>inputTokens = Some 6, outputTokens = Some 30,
                        queries = Some [(''Debugging'', 1)]\<rparr>)]\<rparr>,
      aiUsageCount = 1, aiGeneratedChars = 120, branchCache = initial_cache,
      activePanel = True, console = [], prototypeObjects = clean_prototypes\<rparr>"]
  by simp

section \<open>Properties of the export merge\<close>

lemma findIndex_first:
  "i < length xs \<Longrightarrow> P (xs ! i) \<Longrightarrow> \<forall>j<i. \<not> P (xs ! j) \<Longrightarrow> findIndex P xs = Some i"
proof (induction xs arbitrary: i)
  case Nil
  then show ?case by simp
next
  case (Cons x xs)
  show ?case
  proof (cases i)
    case 0
    with Cons.prems show ?thesis by simp
  next
    case (Suc k)
    with Cons.prems have nx: "\<not> P x" by auto
    have "\<forall>j<k. \<not> P (xs ! j)"
    proof (intro allI impI)
      fix j assume "j < k"
      then have "Suc j < i" using Suc by simp
      with Cons.prems(3) have "\<not> P ((x # xs) ! Suc j)" by blast
      then show "\<not> P (xs ! j)" by simp
    qed
    with Cons.IH [of k] Cons.prems Suc have "findIndex P xs = Some k" by simp
    with nx Suc show ?thesis by simp
  qed
qed

lemma export_fields:
  assumes "getExportData st storedUserId userEmail dateNow = (incoming, uid)"
  shows "incoming =
     [(''userId'', Text uid),
      (''email'', Text (if userEmail \<noteq> ''Guest'' then userEmail else ''exported_user@example.com'')),
      (''usage'', Usage (daily_usage_stats st)),
      (''tokenQuery'', Stats (daily_token_query_stats st)),
      (''projects'', Stats (project_usage_stats st))]"
  using assms by (auto simp: getExportData_def Let_def)

lemma map_of_spread_export:
  "map_of (spread a [(''userId'', x1), (''email'', x2), (''usage'', x3),
                      (''tokenQuery'', x4), (''projects'', x5)]) =
   (map_of a)(''userId'' \<mapsto> x1, ''email'' \<mapsto> x2, ''usage'' \<mapsto> x3,
              ''tokenQuery'' \<mapsto> x4, ''projects'' \<mapsto> x5)"
  by (simp add: spread_def update_conv')

lemma findIndex_least:
  assumes "k < length xs" and "P (xs ! k)"
  shows "\<exists>i\<le>k. findIndex P xs = Some i \<and> P (xs ! i) \<and> (\<forall>j<i. \<not> P (xs ! j))"
proof -
  define i where "i = (LEAST n. P (xs ! n))"
  have pi: "P (xs ! i)" unfolding i_def using assms(2) by (rule LeastI)
  have ik: "i \<le> k" unfolding i_def using assms(2) by (rule Least_le)
  have min: "\<forall>j<i. \<not> P (xs ! j)"
    unfolding i_def using not_less_Least by blast
  from ik assms(1) have "i < length xs" by simp
  from findIndex_first [OF this pi min] pi ik min show ?thesis by blast
qed

text \<open>
  C9, as first stated: when the export has the user id of an existing record and another
  email, the merged record is that record. \<open>findIndex\<close> takes the first record that
  matches by user id or by email: here an earlier record of another user has the export's
  email, so that record is overwritten (it keeps its avatar) and the record with the
  export's user id keeps its old email.
\<close>

theorem earlier_email_match_is_merged:
  "mergeExport
      [[(''userId'', Text ''user_1600000000000''), (''email'', Text ''dev@example.com''),
        (''avatarUrl'', Text ''https://example.com/ann.png'')],
       [(''userId'', Text ''user_1700000000000''), (''email'', Text ''old@example.com''),
        (''avatarUrl'', Text ''https://example.com/a.png'')]]
      (fst (getExportData
         \<lparr>daily_usage_stats = [], daily_token_query_stats = [], project_usage_stats = []\<rparr>
         (Some ''user_1700000000000'') ''dev@example.com'' 1700000005000)) =
     [[(''userId'', Text ''user_1700000000000''), (''email'', Text ''dev@example.com''),
       (''avatarUrl'', Text ''https://example.com/ann.png''),
       (''usage'', Usage []), (''tokenQuery'', Stats []), (''projects'', Stats [])],
      [(''userId'', Text ''user_1700000000000''), (''email'', Text ''old@example.com''),
       (''avatarUrl'', Text ''https://example.com/a.png'')]]"
  by (simp add: getExportData_def Let_def mergeExport_def same_user_def spread_def)

text \<open>
  C9: when a record of the dashboard data has the user id of the export, the merge is
  applied to the first record that matches the export by user id or by email, which is
  that record when no earlier one matches. The merged record carries the export's user id
  and email; every record keeps the \<open>avatarUrl\<close> it had, and no other record changes.
\<close>

theorem merge_same_user:
  assumes "getExportData st storedUserId userEmail dateNow = (incoming, uid)"
    and "k < length currentData"
    and "map_of (currentData ! k) ''userId'' = Some (Text uid)"
  shows "\<exists>i\<le>k.
           findIndex (same_user incoming) currentData = Some i \<and>
           ((\<forall>j<k. \<not> same_user incoming (currentData ! j)) \<longrightarrow> i = k) \<and>
           length (mergeExport currentData incoming) = length currentData \<and>
           map_of (mergeExport currentData incoming ! i) ''userId'' = Some (Text uid) \<and>
           map_of (mergeExport currentData incoming ! i) ''email'' =
             Some (Text (if userEmail \<noteq> ''Guest'' then userEmail
                         else ''exported_user@example.com'')) \<and>
           (\<forall>j<length currentData.
              map_of (mergeExport currentData incoming ! j) ''avatarUrl'' =
                map_of (currentData ! j) ''avatarUrl'') \<and>
           (\<forall>j<length currentData. j \<noteq> i \<longrightarrow>
              mergeExport currentData incoming ! j = currentData ! j)"
proof -
  note inc = export_fields [OF assms(1)]
  have "same_user incoming (currentData ! k)"
    using assms(3) by (simp add: same_user_def inc)
  with findIndex_least [of k currentData "same_user incoming"] assms(2)
  obtain i where ik: "i \<le> k"
    and fi: "findIndex (same_user incoming) currentData = Some i"
    and min: "\<forall>j<i. \<not> same_user incoming (currentData ! j)"
    and pi: "same_user incoming (currentData ! i)"
    by blast
  from ik assms(2) have il: "i < length currentData" by simp
  have m: "mergeExport currentData incoming =
      currentData[i := spread (currentData ! i) incoming]"
    using fi by (simp add: mergeExport_def)
  have sp: "map_of (spread (currentData ! i) incoming) =
      (map_of (currentData ! i))(''userId'' \<mapsto> Text uid,
         ''email'' \<mapsto> Text (if userEmail \<noteq> ''Guest'' then userEmail
                               else ''exported_user@example.com''),
         ''usage'' \<mapsto> Usage (daily_usage_stats st),
         ''tokenQuery'' \<mapsto> Stats (daily_token_query_stats st),
         ''projects'' \<mapsto> Stats (project_usage_stats st))"
    unfolding inc by (rule map_of_spread_export)
  have first: "(\<forall>j<k. \<not> same_user incoming (currentData ! j)) \<longrightarrow> i = k"
  proof
    assume "\<forall>j<k. \<not> same_user incoming (currentData ! j)"
    with pi have "\<not> i < k" by blast
    with ik show "i = k" by simp
  qed
  have avatar: "\<forall>j<length currentData.
      map_of (mergeExport currentData incoming ! j) ''avatarUrl'' =
        map_of (currentData ! j) ''avatarUrl''"
  proof (intro allI impI)
    fix j assume "j < length currentData"
    then show "map_of (mergeExport currentData incoming ! j) ''avatarUrl'' =
        map_of (currentData ! j) ''avatarUrl''"
      unfolding m using sp by (cases "j = i") simp_all
  qed
  have others: "\<forall>j<length currentData. j \<noteq> i \<longrightarrow>
      mergeExport currentData incoming ! j = currentData ! j"
    unfolding m by simp
  have here: "length (mergeExport currentData incoming) = length currentData \<and>
      map_of (mergeExport currentData incoming ! i) ''userId'' = Some (Text uid) \<and>
      map_of (mergeExport currentData incoming ! i) ''email'' =
        Some (Text (if userEmail \<noteq> ''Guest'' then userEmail
                    else ''exported_user@example.com''))"
    unfolding m using il sp by simp
  from ik fi first here avatar others show ?thesis by blast
qed

theorem merge_same_user_witness:
  "mergeExport
      [[(''userId'', Text ''user_1600000000000''), (''email'', Text ''ann@example.com''),
        (''avatarUrl'', Text ''https://example.com/ann.png'')],
       [(''userId'', Text ''user_1700000000000''), (''email'', Text ''old@example.com''),
        (''avatarUrl'', Text ''https://example.com/a.png'')]]
      (fst (getExportData
         \<lparr>daily_usage_stats = [], daily_token_query_stats = [], project_usage_stats = []\<rparr>
         (Some ''user_1700000000000'') ''dev@example.com'' 1700000005000)) =
     [[(''userId'', Text ''user_1600000000000''), (''email'', Text ''ann@example.com''),
        (''avatarUrl'', Text ''https://example.com/ann.png'')],
      [(''userId'', Text ''user_1700000000000''), (''email'', Text ''dev@example.com''),
       (''avatarUrl'', Text ''https://example.com/a.png''),
       (''usage'', Usage []), (''tokenQuery'', Stats []), (''projects'', Stats [])]] \<and>
   findIndex (same_user (fst (getExportData
         \<lparr>daily_usage_stats = [], daily_token_query_stats = [], project_usage_stats = []\<rparr>
         (Some ''user_1700000000000'') ''dev@example.com'' 1700000005000)))
      [[(''userId'', Text ''user_1600000000000''), (''email'', Text ''ann@example.com''),
        (''avatarUrl'', Text ''https://example.com/ann.png'')],
       [(''userId'', Text ''user_1700000000000''), (''email'', Text ''old@example.com''),
        (''avatarUrl'', Text ''https://example.com/a.png'')]] = Some 1"
  using merge_same_user [of
      "\<lparr>daily_usage_stats = [], daily_token_query_stats = [], project_usage_stats = []\<rparr>"
      "Some ''user_1700000000000''" "''dev@example.com''" 1700000005000
      "fst (getExportData
         \<lparr>daily_usage_stats = [], daily_token_query_stats = [], project_usage_stats = []\<rparr>
         (Some ''user_1700000000000'') ''dev@example.com'' 1700000005000)"
      "''user_1700000000000''" 1
      "[[(''userId'', Text ''user_1600000000000''), (''email'', Text ''ann@example.com''),
        (''avatarUrl'', Text ''https://example.com/ann.png'')],
       [(''userId'', Text ''user_1700000000000''), (''email'', Text ''old@example.com''),
        (''avatarUrl'', Text ''https://example.com/a.png'')]]"]
  by (simp add: getExportData_def Let_def mergeExport_def same_user_def spread_def)

end
